theory Spec2Isabelle
  imports Complex_Main "HOL-Library.Multiset"
begin

section \<open>The UMDA optimizer of qiskit/algorithms/optimizers/umda.py\<close>

text \<open>
  A shallow embedding of the class \<^verbatim>\<open>UMDA\<close>. A floating-point number is modelled as a
  real number (no rounding, no infinities) or as NaN: the entries of the model and of the
  population are of type \<open>np_float\<close>, since the fit of an empty sample is NaN; fitness
  values are real numbers. The three collaborators that are not code of the class are
  parameters of the model:
  \<^item> the objective function \<^verbatim>\<open>fun\<close>, a total function from individuals to fitness values;
  \<^item> \<^verbatim>\<open>ndarray.argsort\<close> and \<^verbatim>\<open>scipy.stats.norm.fit\<close>, passed as functions;
  \<^item> the global random generator \<^verbatim>\<open>algorithm_globals.random\<close>, a stream of standard
    normal variates that \<^verbatim>\<open>normal\<close> consumes from the front.
  An exception of the source is the value \<open>Inl e\<close> of the result.
\<close>

subsection \<open>Data\<close>

datatype error = ValueError | IndexError

text \<open>
  A number of a numpy array: a real number or NaN. A comparison with NaN is false, and
  arithmetic on NaN gives NaN.
\<close>

datatype np_float = NaN | Fin real

fun np_less :: "np_float \<Rightarrow> real \<Rightarrow> bool" where
  "np_less (Fin a) b \<longleftrightarrow> a < b"
| "np_less NaN b \<longleftrightarrow> False"

text \<open>\<open>loc + scale * z\<close> for a real number \<open>z\<close>.\<close>

fun np_affine :: "np_float \<Rightarrow> np_float \<Rightarrow> real \<Rightarrow> np_float" where
  "np_affine (Fin l) (Fin c) z = Fin (l + c * z)"
| "np_affine NaN c z = NaN"
| "np_affine (Fin l) NaN z = NaN"

text \<open>One column of the 4 x n array \<^verbatim>\<open>self.__vector\<close>: rows 0 to 3 are mu, std, min, max.\<close>

record column =
  mu :: np_float
  std :: np_float
  vmin :: real
  vmax :: real

text \<open>\<^verbatim>\<open>self.__best_ind_global\<close> is the integer 9999999 until a row of the generation is stored.\<close>

datatype best_ind = Scalar int | Point "np_float list"

record umda =
  disp :: bool
  size_gen :: int
  max_iter :: int
  alpha :: real
  n_variables :: int
  vector :: "column list"
  dead_iter :: real
  best_mae_global :: real
  truncation_length :: int
  generation :: "np_float list list"
  best_ind_global :: best_ind
  history :: "real list"
  evaluations :: "real list"

record optimizer_result =
  x :: best_ind
  fn :: real
  nfev :: int

type_synonym rng = "nat \<Rightarrow> real"

definition ELITE_FACTOR :: real where
  "ELITE_FACTOR = 4 / 10"

definition STD_BOUND :: real where
  "STD_BOUND = 3 / 10"

subsection \<open>Python and numpy operations used by the class\<close>

definition bind :: "error + 'a \<Rightarrow> ('a \<Rightarrow> error + 'b) \<Rightarrow> error + 'b" where
  "bind m f = (case m of Inl e \<Rightarrow> Inl e | Inr v \<Rightarrow> f v)"

text \<open>\<^verbatim>\<open>int(x)\<close> on a float truncates towards zero.\<close>

definition py_int :: "real \<Rightarrow> int" where
  "py_int r = (if 0 \<le> r then \<lfloor>r\<rfloor> else \<lceil>r\<rceil>)"

text \<open>The slice \<^verbatim>\<open>xs[:k]\<close>; a negative \<open>k\<close> counts from the end.\<close>

definition py_slice_to :: "int \<Rightarrow> 'a list \<Rightarrow> 'a list" where
  "py_slice_to k xs = (if 0 \<le> k then take (nat k) xs else take (length xs - nat (- k)) xs)"

text \<open>
  \<^verbatim>\<open>random.normal(loc, scale, [m, n])\<close>: an m x n array whose entry (r, c) is
  \<open>loc[c] + scale[c] * z\<close> for the next standard normal variate \<open>z\<close>. The vectors \<open>loc\<close>
  and \<open>scale\<close> are broadcast against n columns: their length is n or 1. A negative
  dimension or a negative scale raises ValueError; a scale that is NaN does not.
\<close>

definition broadcast :: "np_float list \<Rightarrow> nat \<Rightarrow> np_float" where
  "broadcast v c = (if length v = 1 then v ! 0 else v ! c)"

definition normal ::
  "rng \<Rightarrow> np_float list \<Rightarrow> np_float list \<Rightarrow> int \<Rightarrow> int \<Rightarrow> error + (np_float list list \<times> rng)" where
  "normal g loc scale m n =
     (if m < 0 \<or> n < 0 then Inl ValueError
      else if list_ex (\<lambda>v. np_less v 0) scale then Inl ValueError
      else if \<not> (length loc = nat n \<or> length loc = 1) then Inl ValueError
      else if \<not> (length scale = nat n \<or> length scale = 1) then Inl ValueError
      else Inr (map (\<lambda>r. map (\<lambda>c. np_affine (broadcast loc c) (broadcast scale c) (g (r * nat n + c)))
                          [0..<nat n])
                  [0..<nat m],
                \<lambda>k. g (k + nat m * nat n)))"

subsection \<open>Construction\<close>

text \<open>\<^verbatim>\<open>_initialization\<close>: \<^verbatim>\<open>np.zeros((4, n))\<close> raises ValueError for a negative n.\<close>

definition initialization :: "int \<Rightarrow> error + column list" where
  "initialization n =
     (if n < 0 then Inl ValueError
      else Inr (replicate (nat n) \<lparr>mu = Fin pi, std = Fin (5 / 10), vmin = 0, vmax = pi * 2\<rparr>))"

text \<open>
  \<^verbatim>\<open>__init__(maxiter, size_gen, n_variables, alpha, disp)\<close>. The field
  \<^verbatim>\<open>__evaluations\<close> starts as \<^verbatim>\<open>np.array(0)\<close>, a 0-dimensional array holding 0.
\<close>

definition UMDA_init :: "rng \<Rightarrow> int \<Rightarrow> int \<Rightarrow> int \<Rightarrow> real \<Rightarrow> bool \<Rightarrow> error + (umda \<times> rng)" where
  "UMDA_init g maxiter sg nv a d =
     bind (initialization nv) (\<lambda>v.
     bind (normal g (map mu v) (map std v) sg nv) (\<lambda>(gen, g').
       Inr (\<lparr>disp = d, size_gen = sg, max_iter = maxiter, alpha = a, n_variables = nv,
              vector = v, dead_iter = real_of_int maxiter / 5,
              best_mae_global = 999999999999,
              truncation_length = py_int (real_of_int sg * a),
              generation = gen, best_ind_global = Scalar 9999999,
              history = [], evaluations = [0]\<rparr>, g')))"


subsection \<open>The steps of one iteration\<close>

text \<open>
  \<^verbatim>\<open>_new_generation\<close>: draw \<^verbatim>\<open>size_gen\<close> rows, keep the first
  \<^verbatim>\<open>int(ELITE_FACTOR * len(generation))\<close> rows of the generation and stack the drawn rows
  under them. \<^verbatim>\<open>np.vstack\<close> raises ValueError when the rows differ in length.
\<close>

definition new_generation :: "rng \<Rightarrow> umda \<Rightarrow> error + (umda \<times> rng)" where
  "new_generation g s =
     bind (normal g (map mu (vector s)) (map std (vector s)) (size_gen s) (n_variables s))
       (\<lambda>(gen, g').
          let elite = py_slice_to (py_int (ELITE_FACTOR * real (length (generation s))))
                        (generation s)
          in if list_ex (\<lambda>r. length r \<noteq> nat (n_variables s)) elite then Inl ValueError
             else Inr (s\<lparr>generation := elite @ gen\<rparr>, g'))"

text \<open>
  \<^verbatim>\<open>_truncation\<close>: the first \<^verbatim>\<open>truncation_length\<close> indices of
  \<^verbatim>\<open>evaluations.argsort()\<close> select the rows of the generation and the evaluations.
  An index that is out of range raises IndexError.
\<close>

definition truncation :: "(real list \<Rightarrow> nat list) \<Rightarrow> umda \<Rightarrow> error + umda" where
  "truncation argsort s =
     (let best_indices = py_slice_to (truncation_length s) (argsort (evaluations s))
      in if list_ex (\<lambda>i. length (generation s) \<le> i) best_indices then Inl IndexError
         else if list_ex (\<lambda>i. length (evaluations s) \<le> i) best_indices then Inl IndexError
         else Inr (s\<lparr>generation := map (\<lambda>i. generation s ! i) best_indices,
                     evaluations := map (\<lambda>i. evaluations s ! i) best_indices\<rparr>))"

text \<open>
  \<^verbatim>\<open>_check_generation\<close>: \<^verbatim>\<open>np.apply_along_axis\<close> applies the objective to every row,
  and raises ValueError when there is no row.
\<close>

definition check_generation :: "(np_float list \<Rightarrow> real) \<Rightarrow> umda \<Rightarrow> error + umda" where
  "check_generation objective_function s =
     (if generation s = [] then Inl ValueError
      else Inr (s\<lparr>evaluations := map objective_function (generation s)\<rparr>))"

text \<open>
  \<^verbatim>\<open>_update_vector\<close>: for every i in \<^verbatim>\<open>range(n_variables)\<close>, fit column i of the
  generation, store the fitted mean and standard deviation in column i of the vector and
  raise a standard deviation below \<^verbatim>\<open>STD_BOUND\<close> to it; a standard deviation that is NaN is
  not below it. Reading a column that the generation or the vector does not have raises
  IndexError.
\<close>

fun update_columns ::
  "(np_float list \<Rightarrow> np_float \<times> np_float) \<Rightarrow> np_float list list \<Rightarrow> nat list \<Rightarrow> column list
     \<Rightarrow> error + column list" where
  "update_columns fit gen [] v = Inr v"
| "update_columns fit gen (i # js) v =
     (if list_ex (\<lambda>r. length r \<le> i) gen \<or> length v \<le> i then Inl IndexError
      else (let (m, sd) = fit (map (\<lambda>r. r ! i) gen);
                c = (v ! i)\<lparr>mu := m, std := sd\<rparr>;
                c' = (if np_less (std c) STD_BOUND then c\<lparr>std := Fin STD_BOUND\<rparr> else c)
            in update_columns fit gen js (v[i := c'])))"

definition update_vector :: "(np_float list \<Rightarrow> np_float \<times> np_float) \<Rightarrow> umda \<Rightarrow> error + umda" where
  "update_vector fit s =
     bind (update_columns fit (generation s) [0..<nat (n_variables s)] (vector s))
       (\<lambda>v. Inr (s\<lparr>vector := v\<rparr>))"

subsection \<open>minimize\<close>

text \<open>The builtin \<^verbatim>\<open>min\<close> raises ValueError on an empty sequence.\<close>

definition py_min :: "real list \<Rightarrow> error + real" where
  "py_min xs = (case xs of [] \<Rightarrow> Inl ValueError | y # ys \<Rightarrow> Inr (fold min ys y))"

text \<open>\<^verbatim>\<open>np.where(xs == v)[0][0]\<close>: the first index that holds \<open>v\<close>, IndexError if none.\<close>

fun first_where :: "real list \<Rightarrow> real \<Rightarrow> nat \<Rightarrow> error + nat" where
  "first_where [] v k = Inl IndexError"
| "first_where (y # ys) v k = (if y = v then Inr k else first_where ys v (Suc k))"

text \<open>
  The state of the loop: the optimizer, the local variable \<^verbatim>\<open>not_better\<close> and the random
  generator.
\<close>

record loop_state =
  opt :: umda
  not_better :: int
  gen_state :: rng

text \<open>
  The body of the \<^verbatim>\<open>for\<close> loop. The boolean of the result says whether the body left
  the loop with \<^verbatim>\<open>break\<close>.
\<close>

definition iteration ::
  "(real list \<Rightarrow> nat list) \<Rightarrow> (np_float list \<Rightarrow> np_float \<times> np_float) \<Rightarrow> (np_float list \<Rightarrow> real)
     \<Rightarrow> loop_state
     \<Rightarrow> error + (loop_state \<times> bool)" where
  "iteration argsort fit f st =
     bind (check_generation f (opt st)) (\<lambda>s1.
     bind (truncation argsort s1) (\<lambda>s2.
     bind (update_vector fit s2) (\<lambda>s3.
     bind (py_min (evaluations s3)) (\<lambda>best_mae_local.
       let s4 = s3\<lparr>history := history s3 @ [best_mae_local]\<rparr> in
     bind (first_where (evaluations s4) best_mae_local 0) (\<lambda>k.
       if length (generation s4) \<le> k then Inl IndexError
       else
         let best_ind_local = generation s4 ! k in
         if best_mae_local < best_mae_global s4
         then
           bind (new_generation (gen_state st)
                   (s4\<lparr>best_mae_global := best_mae_local,
                       best_ind_global := Point best_ind_local\<rparr>))
             (\<lambda>(s5, g'). Inr (\<lparr>opt = s5, not_better = 0, gen_state = g'\<rparr>, False))
         else
           let nb = not_better st + 1 in
           if real_of_int nb = dead_iter s4
           then Inr (\<lparr>opt = s4, not_better = nb, gen_state = gen_state st\<rparr>, True)
           else bind (new_generation (gen_state st) s4)
                  (\<lambda>(s5, g'). Inr (\<lparr>opt = s5, not_better = nb, gen_state = g'\<rparr>, False)))))))"

text \<open>
  \<^verbatim>\<open>for _ in range(max_iter)\<close>, with the number of iterations that are left as the
  first argument. Beside the final state the model returns a trace: for every iteration
  that was run, the values of \<^verbatim>\<open>best_mae_global\<close> and \<^verbatim>\<open>not_better\<close> at its end.
\<close>

fun for_loop ::
  "(real list \<Rightarrow> nat list) \<Rightarrow> (np_float list \<Rightarrow> np_float \<times> np_float) \<Rightarrow> (np_float list \<Rightarrow> real)
     \<Rightarrow> nat \<Rightarrow> loop_state
     \<Rightarrow> error + (loop_state \<times> (real \<times> int) list)" where
  "for_loop argsort fit f 0 st = Inr (st, [])"
| "for_loop argsort fit f (Suc n) st =
     bind (iteration argsort fit f st) (\<lambda>(st', stop).
       let e = (best_mae_global (opt st'), not_better st') in
       if stop then Inr (st', [e])
       else bind (for_loop argsort fit f n st') (\<lambda>(st'', tr). Inr (st'', e # tr)))"

text \<open>
  \<^verbatim>\<open>minimize(fun, x0)\<close>; \<^verbatim>\<open>jac\<close> and \<^verbatim>\<open>bounds\<close> are not used, and neither is
  \<^verbatim>\<open>x0\<close>. The model returns the result, the optimizer, the random generator and the trace
  of the loop.
\<close>

definition minimize ::
  "(real list \<Rightarrow> nat list) \<Rightarrow> (np_float list \<Rightarrow> np_float \<times> np_float) \<Rightarrow> (np_float list \<Rightarrow> real)
     \<Rightarrow> real list \<Rightarrow> umda \<Rightarrow> rng \<Rightarrow> error + (optimizer_result \<times> umda \<times> rng \<times> (real \<times> int) list)" where
  "minimize argsort fit f x0 s g =
     (let s0 = s\<lparr>history := []\<rparr> in
      bind (for_loop argsort fit f (nat (max_iter s0)) \<lparr>opt = s0, not_better = 0, gen_state = g\<rparr>)
        (\<lambda>(st, tr).
           Inr (\<lparr>x = best_ind_global (opt st), fn = best_mae_global (opt st),
                  nfev = int (length (history (opt st))) * size_gen (opt st)\<rparr>,
                opt st, gen_state st, tr)))"

subsection \<open>The property setters\<close>

definition set_size_gen :: "int \<Rightarrow> umda \<Rightarrow> umda" where
  "set_size_gen v s = s\<lparr>size_gen := v\<rparr>"

definition set_max_iter :: "int \<Rightarrow> umda \<Rightarrow> umda" where
  "set_max_iter v s = s\<lparr>max_iter := v\<rparr>"

definition set_alpha :: "real \<Rightarrow> umda \<Rightarrow> umda" where
  "set_alpha v s = s\<lparr>alpha := v\<rparr>"

definition set_best_mae_global :: "real \<Rightarrow> umda \<Rightarrow> umda" where
  "set_best_mae_global v s = s\<lparr>best_mae_global := v\<rparr>"

text \<open>
  A call of one of the setters of \<^verbatim>\<open>size_gen\<close>, \<^verbatim>\<open>max_iter\<close> and \<^verbatim>\<open>alpha\<close>, and a sequence
  of such calls. The class has further setters (\<^verbatim>\<open>disp\<close>, \<^verbatim>\<open>n_variables\<close>, \<^verbatim>\<open>dead_iter\<close>,
  \<^verbatim>\<open>generation\<close>), which no property below concerns.
\<close>

datatype setter_call = Set_size_gen int | Set_max_iter int | Set_alpha real

fun call_setter :: "setter_call \<Rightarrow> umda \<Rightarrow> umda" where
  "call_setter (Set_size_gen v) s = set_size_gen v s"
| "call_setter (Set_max_iter v) s = set_max_iter v s"
| "call_setter (Set_alpha v) s = set_alpha v s"

subsection \<open>Reference collaborators\<close>

text \<open>
  numpy documents \<^verbatim>\<open>argsort\<close> as returning the indices that would sort the array: a
  permutation of the indices under which the values ascend. Its default kind (quicksort)
  is documented as not stable.
\<close>

definition is_argsort :: "(real list \<Rightarrow> nat list) \<Rightarrow> real list \<Rightarrow> bool" where
  "is_argsort argsort xs \<longleftrightarrow>
     sort (argsort xs) = [0..<length xs] \<and> sorted (map (\<lambda>i. xs ! i) (argsort xs))"

text \<open>The stable sort of the indices by their values: equal values stay in index order.\<close>

definition argsort_stable :: "real list \<Rightarrow> nat list" where
  "argsort_stable xs = map snd (sort_key fst (zip xs [0..<length xs]))"

text \<open>
  \<^verbatim>\<open>scipy.stats.norm.fit\<close>: the maximum-likelihood estimate, the mean of the data and the
  square root of their mean squared deviation. The mean of no data is NaN, and so are both
  estimates then. On data that hold NaN scipy raises ValueError, which a fit function of
  this model cannot do: \<open>norm_fit\<close> gives NaN there, and no property below fits such data.
\<close>

fun the_fin :: "np_float \<Rightarrow> real" where
  "the_fin (Fin a) = a"
| "the_fin NaN = 0"

definition norm_fit :: "np_float list \<Rightarrow> np_float \<times> np_float" where
  "norm_fit xs =
     (if xs = [] \<or> NaN \<in> set xs then (NaN, NaN)
      else let ys = map the_fin xs;
               loc = sum_list ys / real (length ys)
           in (Fin loc, Fin (sqrt (sum_list (map (\<lambda>v. (v - loc)\<^sup>2) ys) / real (length ys)))))"

text \<open>A random generator whose every variate is \<open>z\<close>, and a constant objective.\<close>

definition const_rng :: "real \<Rightarrow> rng" where
  "const_rng z k = z"

definition const_objective :: "real \<Rightarrow> np_float list \<Rightarrow> real" where
  "const_objective c v = c"

subsection \<open>The bookkeeping of the loop\<close>

text \<open>
  The rule of the loop for the best-ever fitness \<open>b\<close> and the stagnation counter \<open>c\<close>,
  read as a relation between the threshold \<open>d\<close>, the budget \<open>n\<close>, the best fitness \<open>hs\<close> of
  the iterations and the trace \<open>tr\<close>: an iteration whose best fitness is strictly below
  \<open>b\<close> stores it and resets the counter, any other iteration increments the counter, and
  the loop ends there when the counter equals the threshold.
\<close>

fun loop_trace :: "real \<Rightarrow> nat \<Rightarrow> real \<Rightarrow> int \<Rightarrow> real list \<Rightarrow> (real \<times> int) list \<Rightarrow> bool" where
  "loop_trace d n b c [] tr \<longleftrightarrow> tr = [] \<and> n = 0"
| "loop_trace d n b c (h # hs) tr \<longleftrightarrow>
     (case n of 0 \<Rightarrow> False
      | Suc m \<Rightarrow>
         (case tr of [] \<Rightarrow> False
          | e # tr' \<Rightarrow>
             (if h < b then e = (h, 0) \<and> loop_trace d m h 0 hs tr'
              else e = (b, c + 1) \<and>
                   (if real_of_int (c + 1) = d then hs = [] \<and> tr' = []
                    else loop_trace d m b (c + 1) hs tr'))))"

section \<open>Properties\<close>

subsection \<open>Auxiliary facts\<close>

lemma bind_Inl [simp]: "bind (Inl e) f = Inl e"
  by (simp add: bind_def)

lemma bind_Inr [simp]: "bind (Inr v) f = f v"
  by (simp add: bind_def)

lemma bind_eq_Inr: "bind m f = Inr y \<longleftrightarrow> (\<exists>v. m = Inr v \<and> f v = Inr y)"
  by (cases m) simp_all

lemma update_columns_length:
  "update_columns fit gen js v = Inr v' \<Longrightarrow> length v' = length v"
  by (induction js arbitrary: v) (auto simp: Let_def split: if_splits prod.splits)

lemma update_columns_nth:
  "update_columns fit gen js v = Inr v' \<Longrightarrow> i < length v \<Longrightarrow>
     v' ! i = (if i \<in> set js
               then (v ! i)\<lparr>mu := fst (fit (map (\<lambda>r. r ! i) gen)),
                            std := (if np_less (snd (fit (map (\<lambda>r. r ! i) gen))) STD_BOUND
                                    then Fin STD_BOUND
                                    else snd (fit (map (\<lambda>r. r ! i) gen)))\<rparr>
               else v ! i)"
proof (induction js arbitrary: v)
  case Nil
  then show ?case by simp
next
  case (Cons j js)
  obtain m sd where fit: "fit (map (\<lambda>r. r ! j) gen) = (m, sd)"
    by (cases "fit (map (\<lambda>r. r ! j) gen)")
  define c where
    "c = (v ! j)\<lparr>mu := m, std := (if np_less sd STD_BOUND then Fin STD_BOUND else sd)\<rparr>"
  from Cons.prems(1) fit have j: "j < length v"
    and rec: "update_columns fit gen js (v[j := c]) = Inr v'"
    by (auto simp: Let_def c_def split: if_splits)
  from Cons.IH [OF rec] Cons.prems(2)
  have IH: "v' ! i = (if i \<in> set js
               then (v[j := c] ! i)\<lparr>mu := fst (fit (map (\<lambda>r. r ! i) gen)),
                            std := (if np_less (snd (fit (map (\<lambda>r. r ! i) gen))) STD_BOUND
                                    then Fin STD_BOUND
                                    else snd (fit (map (\<lambda>r. r ! i) gen)))\<rparr>
               else v[j := c] ! i)"
    by simp
  show ?case
  proof (cases "i = j")
    case True
    with IH j fit show ?thesis by (simp add: c_def)
  next
    case False
    with IH show ?thesis by simp
  qed
qed

lemma update_columns_in_range:
  "update_columns fit gen js v = Inr v' \<Longrightarrow> j \<in> set js \<Longrightarrow> j < length v"
proof (induction js arbitrary: v)
  case Nil
  then show ?case by simp
next
  case (Cons k js)
  then show ?case
    by (fastforce simp: Let_def split: if_splits prod.splits)
qed

subsection \<open>Evaluation on concrete inputs\<close>

text \<open>
  The equations that evaluate the model on concrete inputs: one variable, a random generator
  with constant variates, the stable \<^verbatim>\<open>argsort\<close> and the maximum-likelihood fit.
\<close>

lemmas run_defs = UMDA_init_def initialization_def normal_def py_int_def py_slice_to_def
  broadcast_def new_generation_def truncation_def check_generation_def update_vector_def
  py_min_def iteration_def minimize_def ELITE_FACTOR_def STD_BOUND_def argsort_stable_def
  norm_fit_def const_rng_def const_objective_def Let_def upt_rec fun_eq_iff eval_nat_numeral

subsection \<open>The floor of the fitted standard deviation\<close>

lemma norm_fit_numbers:
  assumes "col \<noteq> []" and "NaN \<notin> set col"
  shows "\<exists>m v. norm_fit col = (Fin m, Fin v)"
  using assms by (simp add: norm_fit_def Let_def)

text \<open>
  C5 (as the code has it). After a re-fit step that returns, in every dimension \<open>i\<close> below
  \<^verbatim>\<open>n_variables\<close> the stored mean is the fitted mean, and the stored standard deviation is
  the fitted one raised to 0.3 when the fitted one is a number: at least 0.3, and exactly 0.3
  when the fit is below 0.3. A fitted standard deviation that is NaN is stored as it is.
  The fit of scipy is a number on every column that is not empty and holds numbers, a
  column of equal values included, so that the stored standard deviation is at least 0.3
  there.
\<close>

theorem update_vector_std_floor:
  assumes "update_vector fit s = Inr s'" and "i < nat (n_variables s)"
  shows "let col = map (\<lambda>r. r ! i) (generation s) in
           mu (vector s' ! i) = fst (fit col) \<and>
           (\<forall>v. snd (fit col) = Fin v \<longrightarrow>
              std (vector s' ! i) = Fin (max (3 / 10) v) \<and> 3 / 10 \<le> max (3 / 10) v) \<and>
           (snd (fit col) = NaN \<longrightarrow> std (vector s' ! i) = NaN) \<and>
           (fit = norm_fit \<longrightarrow> col \<noteq> [] \<longrightarrow> NaN \<notin> set col \<longrightarrow>
              (\<exists>v. std (vector s' ! i) = Fin v \<and> 3 / 10 \<le> v))"
proof -
  let ?col = "map (\<lambda>r. r ! i) (generation s)"
  from assms(1) obtain v' where
    upd: "update_columns fit (generation s) [0..<nat (n_variables s)] (vector s) = Inr v'"
    and s': "s' = s\<lparr>vector := v'\<rparr>"
    by (auto simp: update_vector_def bind_eq_Inr)
  from assms(2) have mem: "i \<in> set [0..<nat (n_variables s)]" by simp
  from update_columns_in_range [OF upd mem] have "i < length (vector s)" .
  from update_columns_nth [OF upd this] mem s'
  have m: "mu (vector s' ! i) = fst (fit ?col)"
    and sd: "std (vector s' ! i) =
              (if np_less (snd (fit ?col)) STD_BOUND then Fin STD_BOUND else snd (fit ?col))"
    by simp_all
  have a: "std (vector s' ! i) = Fin (max (3 / 10) v) \<and> 3 / 10 \<le> max (3 / 10) v"
    if "snd (fit ?col) = Fin v" for v
    using sd that by (simp add: STD_BOUND_def max_def)
  have b: "std (vector s' ! i) = NaN" if "snd (fit ?col) = NaN"
    using sd that by simp
  have c: "\<exists>v. std (vector s' ! i) = Fin v \<and> 3 / 10 \<le> v"
    if "fit = norm_fit" "?col \<noteq> []" "NaN \<notin> set ?col"
  proof -
    from norm_fit_numbers [OF that(2,3)] obtain m v where "norm_fit ?col = (Fin m, Fin v)"
      by blast
    with that(1) have "snd (fit ?col) = Fin v" by simp
    from a [OF this] show ?thesis by blast
  qed
  from m a b c show ?thesis
    unfolding Let_def by blast
qed

text \<open>
  The theorem at an elite set of two rows whose column 0 is constant: the fitted standard
  deviation 0 of that column is stored as 0.3.
\<close>

theorem update_vector_std_floor_witness:
  "update_vector norm_fit
     \<lparr>disp = False, size_gen = 4, max_iter = 5, alpha = 1 / 2, n_variables = 2,
      vector = [\<lparr>mu = Fin pi, std = Fin (1 / 2), vmin = 0, vmax = pi * 2\<rparr>,
                \<lparr>mu = Fin pi, std = Fin (1 / 2), vmin = 0, vmax = pi * 2\<rparr>],
      dead_iter = 1, best_mae_global = 999999999999, truncation_length = 2,
      generation = [[Fin 1, Fin 2], [Fin 1, Fin 4]], best_ind_global = Scalar 9999999,
      history = [], evaluations = [0, 0]\<rparr>
   = Inr \<lparr>disp = False, size_gen = 4, max_iter = 5, alpha = 1 / 2, n_variables = 2,
      vector = [\<lparr>mu = Fin 1, std = Fin (3 / 10), vmin = 0, vmax = pi * 2\<rparr>,
                \<lparr>mu = Fin 3, std = Fin 1, vmin = 0, vmax = pi * 2\<rparr>],
      dead_iter = 1, best_mae_global = 999999999999, truncation_length = 2,
      generation = [[Fin 1, Fin 2], [Fin 1, Fin 4]], best_ind_global = Scalar 9999999,
      history = [], evaluations = [0, 0]\<rparr>
   \<and> norm_fit [Fin 1, Fin 1] = (Fin 1, Fin 0) \<and> Fin (3 / 10) = Fin (max (3 / 10) 0)"
proof -
  have run: "update_vector norm_fit
     \<lparr>disp = False, size_gen = 4, max_iter = 5, alpha = 1 / 2, n_variables = 2,
      vector = [\<lparr>mu = Fin pi, std = Fin (1 / 2), vmin = 0, vmax = pi * 2\<rparr>,
                \<lparr>mu = Fin pi, std = Fin (1 / 2), vmin = 0, vmax = pi * 2\<rparr>],
      dead_iter = 1, best_mae_global = 999999999999, truncation_length = 2,
      generation = [[Fin 1, Fin 2], [Fin 1, Fin 4]], best_ind_global = Scalar 9999999,
      history = [], evaluations = [0, 0]\<rparr>
   = Inr \<lparr>disp = False, size_gen = 4, max_iter = 5, alpha = 1 / 2, n_variables = 2,
      vector = [\<lparr>mu = Fin 1, std = Fin (3 / 10), vmin = 0, vmax = pi * 2\<rparr>,
                \<lparr>mu = Fin 3, std = Fin 1, vmin = 0, vmax = pi * 2\<rparr>],
      dead_iter = 1, best_mae_global = 999999999999, truncation_length = 2,
      generation = [[Fin 1, Fin 2], [Fin 1, Fin 4]], best_ind_global = Scalar 9999999,
      history = [], evaluations = [0, 0]\<rparr>"
    by (simp add: update_vector_def norm_fit_def STD_BOUND_def upt_rec Let_def)
  have fit: "norm_fit [Fin 1, Fin 1] = (Fin 1, Fin 0)"
    by (simp add: norm_fit_def Let_def)
  from update_vector_std_floor [OF run, of 0] run fit show ?thesis
    by simp
qed

text \<open>
  The spec's scenario \<^verbatim>\<open>size_gen=1, alpha=0.1\<close>, whose \<^verbatim>\<open>truncation_length\<close> is 0: the first
  iteration evaluates the population, truncates it to no row and re-fits the model on no
  row. The fitted mean and standard deviation are NaN, and the standard deviation stays NaN:
  it is not at least 0.3.
\<close>

theorem refit_of_empty_elite_is_nan:
  "UMDA_init (const_rng 0) 100 1 1 (1 / 10) False
   = Inr (\<lparr>disp = False, size_gen = 1, max_iter = 100, alpha = 1 / 10, n_variables = 1,
           vector = [\<lparr>mu = Fin pi, std = Fin (1 / 2), vmin = 0, vmax = pi * 2\<rparr>],
           dead_iter = 20, best_mae_global = 999999999999, truncation_length = 0,
           generation = [[Fin pi]], best_ind_global = Scalar 9999999, history = [],
           evaluations = [0]\<rparr>, const_rng 0)
   \<and> check_generation (const_objective 7)
       \<lparr>disp = False, size_gen = 1, max_iter = 100, alpha = 1 / 10, n_variables = 1,
        vector = [\<lparr>mu = Fin pi, std = Fin (1 / 2), vmin = 0, vmax = pi * 2\<rparr>],
        dead_iter = 20, best_mae_global = 999999999999, truncation_length = 0,
        generation = [[Fin pi]], best_ind_global = Scalar 9999999, history = [],
        evaluations = [0]\<rparr>
   = Inr \<lparr>disp = False, size_gen = 1, max_iter = 100, alpha = 1 / 10, n_variables = 1,
        vector = [\<lparr>mu = Fin pi, std = Fin (1 / 2), vmin = 0, vmax = pi * 2\<rparr>],
        dead_iter = 20, best_mae_global = 999999999999, truncation_length = 0,
        generation = [[Fin pi]], best_ind_global = Scalar 9999999, history = [],
        evaluations = [7]\<rparr>
   \<and> truncation argsort_stable
       \<lparr>disp = False, size_gen = 1, max_iter = 100, alpha = 1 / 10, n_variables = 1,
        vector = [\<lparr>mu = Fin pi, std = Fin (1 / 2), vmin = 0, vmax = pi * 2\<rparr>],
        dead_iter = 20, best_mae_global = 999999999999, truncation_length = 0,
        generation = [[Fin pi]], best_ind_global = Scalar 9999999, history = [],
        evaluations = [7]\<rparr>
   = Inr \<lparr>disp = False, size_gen = 1, max_iter = 100, alpha = 1 / 10, n_variables = 1,
        vector = [\<lparr>mu = Fin pi, std = Fin (1 / 2), vmin = 0, vmax = pi * 2\<rparr>],
        dead_iter = 20, best_mae_global = 999999999999, truncation_length = 0,
        generation = [], best_ind_global = Scalar 9999999, history = [],
        evaluations = []\<rparr>
   \<and> update_vector norm_fit
       \<lparr>disp = False, size_gen = 1, max_iter = 100, alpha = 1 / 10, n_variables = 1,
        vector = [\<lparr>mu = Fin pi, std = Fin (1 / 2), vmin = 0, vmax = pi * 2\<rparr>],
        dead_iter = 20, best_mae_global = 999999999999, truncation_length = 0,
        generation = [], best_ind_global = Scalar 9999999, history = [],
        evaluations = []\<rparr>
   = Inr \<lparr>disp = False, size_gen = 1, max_iter = 100, alpha = 1 / 10, n_variables = 1,
        vector = [\<lparr>mu = NaN, std = NaN, vmin = 0, vmax = pi * 2\<rparr>],
        dead_iter = 20, best_mae_global = 999999999999, truncation_length = 0,
        generation = [], best_ind_global = Scalar 9999999, history = [],
        evaluations = []\<rparr>"
  by (simp add: UMDA_init_def initialization_def normal_def broadcast_def py_int_def
        const_rng_def fun_eq_iff check_generation_def const_objective_def truncation_def
        py_slice_to_def update_vector_def norm_fit_def STD_BOUND_def Let_def)

subsection \<open>Construction with an empty elite set\<close>

lemma update_columns_no_rows:
  "\<forall>j\<in>set js. j < length v \<Longrightarrow> \<exists>v'. update_columns fit [] js v = Inr v'"
  by (induction js arbitrary: v) (auto simp: Let_def split: prod.splits)

lemma py_slice_to_0 [simp]: "py_slice_to 0 xs = []"
  by (simp add: py_slice_to_def)


lemma initialization_Inr:
  "0 \<le> nv \<Longrightarrow> initialization nv = Inr (replicate (nat nv) \<lparr>mu = Fin pi, std = Fin (5 / 10), vmin = 0, vmax = pi * 2\<rparr>)"
  by (simp add: initialization_def)

lemma normal_prior:
  assumes "0 \<le> sg" "0 \<le> nv"
  shows "\<exists>gen g'. normal g (map mu (replicate (nat nv) \<lparr>mu = Fin pi, std = Fin (5 / 10), vmin = 0, vmax = pi * 2\<rparr>))
           (map std (replicate (nat nv) \<lparr>mu = Fin pi, std = Fin (5 / 10), vmin = 0, vmax = pi * 2\<rparr>)) sg nv = Inr (gen, g')"
  using assms by (simp add: normal_def list_ex_iff)

text \<open>
  C1 (as the code has it). Construction validates nothing but the shapes: for a population
  size and a number of variables that are not negative, parameters with
  \<^verbatim>\<open>int(size_gen * alpha) = 0\<close> construct an optimizer whose \<^verbatim>\<open>truncation_length\<close> is 0.
  The empty elite set shows only later: a \<^verbatim>\<open>minimize\<close> call with at least one iteration
  raises ValueError in its first iteration.
\<close>

theorem init_accepts_empty_elite:
  assumes "0 \<le> sg" and "0 \<le> nv" and "py_int (real_of_int sg * a) = 0"
  shows "\<exists>s g'. UMDA_init g maxiter sg nv a d = Inr (s, g') \<and> truncation_length s = 0 \<and>
           (1 \<le> maxiter \<longrightarrow> minimize argsort fit f x0 s g' = Inl ValueError)"
proof -
  let ?v = "replicate (nat nv) \<lparr>mu = Fin pi, std = Fin (5 / 10), vmin = 0, vmax = pi * 2\<rparr>"
  from normal_prior [OF assms(1,2)] obtain gen g' where
    nrm: "normal g (map mu ?v) (map std ?v) sg nv = Inr (gen, g')" by blast
  define s where "s = \<lparr>disp = d, size_gen = sg, max_iter = maxiter, alpha = a, n_variables = nv,
              vector = ?v, dead_iter = real_of_int maxiter / 5,
              best_mae_global = 999999999999,
              truncation_length = py_int (real_of_int sg * a),
              generation = gen, best_ind_global = Scalar 9999999,
              history = [], evaluations = [0]\<rparr>"
  have init: "UMDA_init g maxiter sg nv a d = Inr (s, g')"
    using nrm assms(2) by (simp add: UMDA_init_def initialization_Inr s_def)
  have tl: "truncation_length s = 0"
    using assms(3) by (simp add: s_def)
  have run: "minimize argsort fit f x0 s g' = Inl ValueError" if m: "1 \<le> maxiter"
  proof -
    from m obtain n where n: "nat (max_iter s) = Suc n"
      by (cases "nat maxiter") (auto simp: s_def)
    have it: "iteration argsort fit f \<lparr>opt = s\<lparr>history := []\<rparr>, not_better = 0, gen_state = g'\<rparr>
                = Inl ValueError"
    proof (cases "gen = []")
      case True
      then show ?thesis
        by (simp add: iteration_def check_generation_def s_def)
    next
      case False
      have "\<forall>j\<in>set [0..<nat nv]. j < length ?v" by simp
      from update_columns_no_rows [OF this, of fit] obtain v' where
        "update_columns fit [] [0..<nat nv] ?v = Inr v'" by blast
      with False assms(3) show ?thesis
        by (simp add: iteration_def check_generation_def truncation_def update_vector_def
              py_min_def s_def)
    qed
    show ?thesis
      by (simp add: minimize_def n it Let_def)
  qed
  from init tl run show ?thesis by blast
qed

text \<open>
  The spec's scenario \<^verbatim>\<open>size_gen=1, alpha=0.1\<close>: construction returns an optimizer, with
  \<^verbatim>\<open>truncation_length\<close> 0, and does not fail.
\<close>

theorem init_size_1_alpha_tenth:
  "UMDA_init (const_rng 0) 100 1 1 (1 / 10) False =
     Inr (\<lparr>disp = False, size_gen = 1, max_iter = 100, alpha = 1 / 10, n_variables = 1,
            vector = [\<lparr>mu = Fin pi, std = Fin (1 / 2), vmin = 0, vmax = pi * 2\<rparr>], dead_iter = 20,
            best_mae_global = 999999999999, truncation_length = 0, generation = [[Fin pi]],
            best_ind_global = Scalar 9999999, history = [], evaluations = [0]\<rparr>,
          const_rng 0)"
  by (simp add: UMDA_init_def initialization_def normal_def broadcast_def py_int_def
        const_rng_def fun_eq_iff)

theorem init_accepts_empty_elite_witness:
  "UMDA_init (const_rng 0) 100 1 1 (1 / 10) False =
     Inr (\<lparr>disp = False, size_gen = 1, max_iter = 100, alpha = 1 / 10, n_variables = 1,
            vector = [\<lparr>mu = Fin pi, std = Fin (1 / 2), vmin = 0, vmax = pi * 2\<rparr>], dead_iter = 20,
            best_mae_global = 999999999999, truncation_length = 0, generation = [[Fin pi]],
            best_ind_global = Scalar 9999999, history = [], evaluations = [0]\<rparr>,
          const_rng 0) \<and>
   minimize argsort_stable norm_fit (const_objective 0) [0]
     \<lparr>disp = False, size_gen = 1, max_iter = 100, alpha = 1 / 10, n_variables = 1,
      vector = [\<lparr>mu = Fin pi, std = Fin (1 / 2), vmin = 0, vmax = pi * 2\<rparr>], dead_iter = 20,
      best_mae_global = 999999999999, truncation_length = 0, generation = [[Fin pi]],
      best_ind_global = Scalar 9999999, history = [], evaluations = [0]\<rparr>
     (const_rng 0) = Inl ValueError"
proof -
  have init: "UMDA_init (const_rng 0) 100 1 1 (1 / 10) False =
     Inr (\<lparr>disp = False, size_gen = 1, max_iter = 100, alpha = 1 / 10, n_variables = 1,
            vector = [\<lparr>mu = Fin pi, std = Fin (1 / 2), vmin = 0, vmax = pi * 2\<rparr>], dead_iter = 20,
            best_mae_global = 999999999999, truncation_length = 0, generation = [[Fin pi]],
            best_ind_global = Scalar 9999999, history = [], evaluations = [0]\<rparr>,
          const_rng 0)"
    by (simp add: UMDA_init_def initialization_def normal_def broadcast_def py_int_def
          const_rng_def fun_eq_iff)
  have "(0::int) \<le> 1" and "py_int (real_of_int 1 * (1 / 10)) = 0"
    by (simp_all add: py_int_def)
  from init_accepts_empty_elite [OF this(1) this(1) this(2),
      of "const_rng 0" 100 False argsort_stable norm_fit "const_objective 0" "[0]"] init
  show ?thesis by simp
qed

subsection \<open>The contract of argsort\<close>

lemma zip_upt_aligned: "p \<in> set (zip xs [0..<length xs]) \<Longrightarrow> fst p = xs ! snd p"
  by (auto simp: set_zip)

lemma map_nth_snd_aligned:
  assumes "\<forall>p\<in>set ys. fst p = xs ! snd p"
  shows "map (\<lambda>i. xs ! i) (map snd ys) = map fst ys"
  using assms by (induction ys) auto

lemma sort_perm_upt:
  assumes "mset A = mset [0..<n]"
  shows "sort A = [0..<n]"
  using assms by (metis properties_for_sort sorted_upt)

lemma is_argsort_stable: "is_argsort argsort_stable xs"
proof -
  let ?zs = "zip xs [0..<length xs]"
  let ?ys = "sort_key fst ?zs"
  have "mset (map snd ?ys) = mset (map snd ?zs)"
    by (simp only: mset_map mset_sort)
  moreover have "map snd ?zs = [0..<length xs]"
    by simp
  ultimately have "mset (argsort_stable xs) = mset [0..<length xs]"
    by (simp only: argsort_stable_def)
  then have a: "sort (argsort_stable xs) = [0..<length xs]"
    by (rule sort_perm_upt)
  have "\<forall>p\<in>set ?ys. fst p = xs ! snd p"
    using zip_upt_aligned by auto
  then have eq: "map (\<lambda>i. xs ! i) (map snd ?ys) = map fst ?ys"
    by (rule map_nth_snd_aligned)
  have b: "sorted (map (\<lambda>i. xs ! i) (argsort_stable xs))"
    unfolding argsort_stable_def eq by (rule sorted_sort_key)
  from a b show ?thesis by (simp add: is_argsort_def)
qed



subsection \<open>Truncation\<close>

lemma is_argsort_length: "is_argsort A xs \<Longrightarrow> length (A xs) = length xs"
  by (metis is_argsort_def length_sort length_upt diff_zero)

lemma is_argsort_set: "is_argsort A xs \<Longrightarrow> set (A xs) = {..<length xs}"
  by (metis is_argsort_def set_sort atLeast_upt)


lemma py_slice_to_take:
  "py_slice_to k xs = take (if 0 \<le> k then nat k else length xs - nat (- k)) xs"
  by (simp add: py_slice_to_def)

lemma truncation_selects:
  assumes "is_argsort argsort (evaluations s)"
    and "length (generation s) = length (evaluations s)"
  shows "truncation argsort s =
           Inr (s\<lparr>generation := map (\<lambda>i. generation s ! i)
                                  (py_slice_to (truncation_length s) (argsort (evaluations s))),
                   evaluations := map (\<lambda>i. evaluations s ! i)
                                  (py_slice_to (truncation_length s) (argsort (evaluations s)))\<rparr>)"
proof -
  have "set (py_slice_to (truncation_length s) (argsort (evaluations s))) \<subseteq> {..<length (evaluations s)}"
    unfolding py_slice_to_take using is_argsort_set [OF assms(1)] set_take_subset by fastforce
  then have "\<not> list_ex (\<lambda>i. length (evaluations s) \<le> i)
                 (py_slice_to (truncation_length s) (argsort (evaluations s)))"
    by (auto simp: list_ex_iff)
  with assms(2) show ?thesis
    by (simp add: truncation_def Let_def)
qed







subsection \<open>The new generation\<close>

lemma normal_length:
  "normal g loc scale m n = Inr (gen, g') \<Longrightarrow> length gen = nat m \<and> 0 \<le> m"
  by (auto simp: normal_def split: if_splits)

lemma update_vector_frame:
  "update_vector fit s = Inr s' \<Longrightarrow> \<exists>v. s' = s\<lparr>vector := v\<rparr>"
  by (auto simp: update_vector_def bind_eq_Inr)

lemma py_int_elite: "py_int (ELITE_FACTOR * real n) = \<lfloor>4 / 10 * real n\<rfloor>"
  by (simp add: py_int_def ELITE_FACTOR_def)

lemma elite_le: "nat \<lfloor>4 / 10 * real n\<rfloor> \<le> n"
proof -
  have "4 / 10 * real n \<le> real n" by simp
  then have "\<lfloor>4 / 10 * real n\<rfloor> \<le> int n" by linarith
  then show ?thesis by linarith
qed

lemma new_generation_rows:
  assumes "new_generation g s = Inr (s', g')"
  shows "\<exists>fresh.
           normal g (map mu (vector s)) (map std (vector s)) (size_gen s) (n_variables s)
             = Inr (fresh, g') \<and>
           int (length fresh) = size_gen s \<and>
           s' = s\<lparr>generation := take (nat \<lfloor>4 / 10 * real (length (generation s))\<rfloor>) (generation s) @ fresh\<rparr> \<and>
           int (length (generation s')) = \<lfloor>4 / 10 * real (length (generation s))\<rfloor> + size_gen s"
proof -
  let ?n = "length (generation s)"
  from assms obtain fresh where
    nrm: "normal g (map mu (vector s)) (map std (vector s)) (size_gen s) (n_variables s)
            = Inr (fresh, g')"
    and s': "s' = s\<lparr>generation := py_slice_to (py_int (ELITE_FACTOR * real ?n)) (generation s) @ fresh\<rparr>"
    by (auto simp: new_generation_def bind_eq_Inr Let_def split: if_splits)
  from normal_length [OF nrm] have lf: "length fresh = nat (size_gen s)" "0 \<le> size_gen s"
    by simp_all
  have e0: "0 \<le> \<lfloor>4 / 10 * real ?n\<rfloor>"
    by simp
  then have el: "py_slice_to (py_int (ELITE_FACTOR * real ?n)) (generation s)
                 = take (nat \<lfloor>4 / 10 * real ?n\<rfloor>) (generation s)"
    unfolding py_int_elite by (simp add: py_slice_to_def)
  have s'': "s' = s\<lparr>generation := take (nat \<lfloor>4 / 10 * real ?n\<rfloor>) (generation s) @ fresh\<rparr>"
    using s' unfolding el .
  have "length (generation s') = nat \<lfloor>4 / 10 * real ?n\<rfloor> + nat (size_gen s)"
    using elite_le [of ?n] lf by (simp add: s'')
  then have ln: "int (length (generation s')) = \<lfloor>4 / 10 * real ?n\<rfloor> + size_gen s"
    using e0 lf by simp
  from nrm lf s'' ln show ?thesis
    by auto
qed

lemma truncated_population:
  assumes "check_generation f p = Inr p0"
    and "truncation argsort p0 = Inr p1"
    and "update_vector fit p1 = Inr s"
    and "is_argsort argsort (evaluations p0)"
    and "0 \<le> truncation_length p"
    and "truncation_length p \<le> int (length (generation p))"
  shows "generation s = generation p1 \<and> int (length (generation s)) = truncation_length p"
proof -
  from assms(1) have p0: "p0 = p\<lparr>evaluations := map f (generation p)\<rparr>"
    by (auto simp: check_generation_def split: if_splits)
  then have al: "length (generation p0) = length (evaluations p0)"
    by simp
  from truncation_selects [OF assms(4) al] assms(2)
  have "generation p1 = map (\<lambda>i. generation p0 ! i)
                          (py_slice_to (truncation_length p0) (argsort (evaluations p0)))"
    by auto
  then have "length (generation p1) = length (py_slice_to (truncation_length p0) (argsort (evaluations p0)))"
    by simp
  also have "\<dots> = nat (truncation_length p)"
    using assms(5,6) is_argsort_length [OF assms(4)] by (simp add: py_slice_to_def p0)
  finally have "int (length (generation p1)) = truncation_length p"
    using assms(5) by simp
  moreover from update_vector_frame [OF assms(3)] have "generation s = generation p1"
    by auto
  ultimately show ?thesis by simp
qed


text \<open>
  C3 (as the code has it). A new-generation step that returns keeps the first
  \<open>floor (0.4 * n)\<close> rows of the population it finds, unchanged, where n is the number of
  rows of that population, and puts under them the \<^verbatim>\<open>size_gen\<close> rows that \<^verbatim>\<open>normal\<close> draws
  from the means and standard deviations of the model; the new population has
  \<open>floor (0.4 * n) + size_gen\<close> rows. The population that the step finds in an iteration is
  the truncated one: when at least \<^verbatim>\<open>truncation_length\<close> individuals were evaluated (and
  \<^verbatim>\<open>truncation_length\<close> is not negative, and \<^verbatim>\<open>argsort\<close> keeps its contract), n is
  \<^verbatim>\<open>truncation_length\<close>, and the new population has
  \<open>floor (0.4 * truncation_length) + size_gen\<close> rows.
\<close>

theorem new_generation_after_truncation:
  assumes "new_generation g s = Inr (s', g')"
  shows "\<exists>fresh.
           normal g (map mu (vector s)) (map std (vector s)) (size_gen s) (n_variables s)
             = Inr (fresh, g') \<and>
           int (length fresh) = size_gen s \<and>
           generation s' =
             take (nat \<lfloor>4 / 10 * real (length (generation s))\<rfloor>) (generation s) @ fresh \<and>
           int (length (generation s')) = \<lfloor>4 / 10 * real (length (generation s))\<rfloor> + size_gen s \<and>
           (\<forall>f argsort fit p p0 p1.
              check_generation f p = Inr p0 \<and> truncation argsort p0 = Inr p1 \<and>
              update_vector fit p1 = Inr s \<and> is_argsort argsort (evaluations p0) \<and>
              0 \<le> truncation_length p \<and> truncation_length p \<le> int (length (generation p))
              \<longrightarrow> generation s = generation p1 \<and>
                  int (length (generation s)) = truncation_length p \<and>
                  int (length (generation s')) =
                    \<lfloor>4 / 10 * real_of_int (truncation_length p)\<rfloor> + size_gen s)"
proof -
  from new_generation_rows [OF assms] obtain fresh where
    a: "normal g (map mu (vector s)) (map std (vector s)) (size_gen s) (n_variables s)
             = Inr (fresh, g')"
    and b: "int (length fresh) = size_gen s"
    and c: "s' = s\<lparr>generation := take (nat \<lfloor>4 / 10 * real (length (generation s))\<rfloor>) (generation s) @ fresh\<rparr>"
    and d: "int (length (generation s')) = \<lfloor>4 / 10 * real (length (generation s))\<rfloor> + size_gen s"
    by blast
  have e: "generation s = generation p1 \<and>
           int (length (generation s)) = truncation_length p \<and>
           int (length (generation s')) = \<lfloor>4 / 10 * real_of_int (truncation_length p)\<rfloor> + size_gen s"
    if "check_generation f p = Inr p0" "truncation argsort p0 = Inr p1"
      "update_vector fit p1 = Inr s" "is_argsort argsort (evaluations p0)"
      "0 \<le> truncation_length p" "truncation_length p \<le> int (length (generation p))"
    for f argsort fit p p0 p1
  proof -
    from truncated_population [OF that]
    have t: "generation s = generation p1" "int (length (generation s)) = truncation_length p"
      by blast+
    from t(2) have r: "real (length (generation s)) = real_of_int (truncation_length p)"
      by (metis of_int_of_nat_eq)
    have "int (length (generation s')) = \<lfloor>4 / 10 * real_of_int (truncation_length p)\<rfloor> + size_gen s"
      using d unfolding r .
    with t show ?thesis by blast
  qed
  from c have c': "generation s' =
             take (nat \<lfloor>4 / 10 * real (length (generation s))\<rfloor>) (generation s) @ fresh"
    by simp
  from a b c' d e show ?thesis
    by blast
qed


text \<open>
  The theorem at an iteration with five individuals of which four are kept: one elite row is
  carried over and five rows are drawn, six rows in all.
\<close>

theorem new_generation_after_truncation_witness:
  "new_generation (const_rng 1)
     \<lparr>disp = False, size_gen = 5, max_iter = 5, alpha = 8 / 10, n_variables = 1,
      vector = [\<lparr>mu = Fin 2, std = Fin 1, vmin = 0, vmax = pi * 2\<rparr>], dead_iter = 1,
      best_mae_global = 999999999999, truncation_length = 4,
      generation = [[Fin 1], [Fin 1], [Fin 3], [Fin 3]], best_ind_global = Scalar 9999999,
      history = [], evaluations = [1, 1, 3, 3]\<rparr>
   = Inr (\<lparr>disp = False, size_gen = 5, max_iter = 5, alpha = 8 / 10, n_variables = 1,
      vector = [\<lparr>mu = Fin 2, std = Fin 1, vmin = 0, vmax = pi * 2\<rparr>], dead_iter = 1,
      best_mae_global = 999999999999, truncation_length = 4,
      generation = [[Fin 1], [Fin 3], [Fin 3], [Fin 3], [Fin 3], [Fin 3]], best_ind_global = Scalar 9999999,
      history = [], evaluations = [1, 1, 3, 3]\<rparr>, const_rng 1)
   \<and> int (length [[Fin 1], [Fin 3], [Fin 3], [Fin 3], [Fin 3], [Fin 3]]) = \<lfloor>4 / 10 * real_of_int 4\<rfloor> + 5"
proof -
  let ?p = "\<lparr>disp = False, size_gen = 5, max_iter = 5, alpha = 8 / 10, n_variables = 1,
      vector = [\<lparr>mu = Fin pi, std = Fin (1 / 2), vmin = 0, vmax = pi * 2\<rparr>], dead_iter = 1,
      best_mae_global = 999999999999, truncation_length = 4,
      generation = [[Fin 3], [Fin 1], [Fin 9], [Fin 1], [Fin 3]], best_ind_global = Scalar 9999999,
      history = [], evaluations = [0]\<rparr>"
  let ?p0 = "\<lparr>disp = False, size_gen = 5, max_iter = 5, alpha = 8 / 10, n_variables = 1,
      vector = [\<lparr>mu = Fin pi, std = Fin (1 / 2), vmin = 0, vmax = pi * 2\<rparr>], dead_iter = 1,
      best_mae_global = 999999999999, truncation_length = 4,
      generation = [[Fin 3], [Fin 1], [Fin 9], [Fin 1], [Fin 3]], best_ind_global = Scalar 9999999,
      history = [], evaluations = [3, 1, 9, 1, 3]\<rparr>"
  let ?p1 = "\<lparr>disp = False, size_gen = 5, max_iter = 5, alpha = 8 / 10, n_variables = 1,
      vector = [\<lparr>mu = Fin pi, std = Fin (1 / 2), vmin = 0, vmax = pi * 2\<rparr>], dead_iter = 1,
      best_mae_global = 999999999999, truncation_length = 4,
      generation = [[Fin 1], [Fin 1], [Fin 3], [Fin 3]], best_ind_global = Scalar 9999999,
      history = [], evaluations = [1, 1, 3, 3]\<rparr>"
  let ?p2 = "\<lparr>disp = False, size_gen = 5, max_iter = 5, alpha = 8 / 10, n_variables = 1,
      vector = [\<lparr>mu = Fin 2, std = Fin 1, vmin = 0, vmax = pi * 2\<rparr>], dead_iter = 1,
      best_mae_global = 999999999999, truncation_length = 4,
      generation = [[Fin 1], [Fin 1], [Fin 3], [Fin 3]], best_ind_global = Scalar 9999999,
      history = [], evaluations = [1, 1, 3, 3]\<rparr>"
  let ?p3 = "\<lparr>disp = False, size_gen = 5, max_iter = 5, alpha = 8 / 10, n_variables = 1,
      vector = [\<lparr>mu = Fin 2, std = Fin 1, vmin = 0, vmax = pi * 2\<rparr>], dead_iter = 1,
      best_mae_global = 999999999999, truncation_length = 4,
      generation = [[Fin 1], [Fin 3], [Fin 3], [Fin 3], [Fin 3], [Fin 3]], best_ind_global = Scalar 9999999,
      history = [], evaluations = [1, 1, 3, 3]\<rparr>"
  have c: "check_generation (\<lambda>v. the_fin (v ! 0)) ?p = Inr ?p0"
    by (simp add: check_generation_def)
  have idx: "argsort_stable [3, 1, 9, 1, 3] = [1, 3, 0, 4, 2]"
    by (simp add: argsort_stable_def upt_rec)
  have t: "truncation argsort_stable ?p0 = Inr ?p1"
    by (simp add: truncation_def py_slice_to_def idx eval_nat_numeral)
  have u: "update_vector norm_fit ?p1 = Inr ?p2"
    by (simp add: update_vector_def norm_fit_def STD_BOUND_def upt_rec Let_def)
  have n: "new_generation (const_rng 1) ?p2 = Inr (?p3, const_rng 1)"
    by (simp add: new_generation_def normal_def broadcast_def py_slice_to_def py_int_def
          ELITE_FACTOR_def upt_rec const_rng_def fun_eq_iff)
  have a: "is_argsort argsort_stable (evaluations ?p0)"
    by (simp add: is_argsort_def idx upt_rec)
  have b: "0 \<le> truncation_length ?p" "truncation_length ?p \<le> int (length (generation ?p))"
    by simp_all
  from new_generation_after_truncation [OF n]
  have "\<And>f argsort fit p p0 p1.
          check_generation f p = Inr p0 \<Longrightarrow> truncation argsort p0 = Inr p1 \<Longrightarrow>
          update_vector fit p1 = Inr ?p2 \<Longrightarrow> is_argsort argsort (evaluations p0) \<Longrightarrow>
          0 \<le> truncation_length p \<Longrightarrow> truncation_length p \<le> int (length (generation p)) \<Longrightarrow>
          int (length (generation ?p3)) =
            \<lfloor>4 / 10 * real_of_int (truncation_length p)\<rfloor> + size_gen ?p2"
    by blast
  from this [OF c t u a b] n show ?thesis
    by simp
qed

text \<open>
  An optimizer constructed with \<^verbatim>\<open>size_gen\<close> 3 and \<^verbatim>\<open>alpha\<close> 1 has \<^verbatim>\<open>truncation_length\<close> 3.
  After \<^verbatim>\<open>size_gen\<close> is set to 1, the first iteration of \<^verbatim>\<open>minimize\<close> leaves a population
  of two individuals; the new-generation step of the second iteration finds these two,
  keeps \<open>floor (0.4 * 2) = 0\<close> of them and draws one: the population has one individual,
  where \<open>floor (0.4 * truncation_length) + size_gen\<close> is 2.
\<close>

theorem new_generation_after_size_gen_setter:
  "UMDA_init (const_rng 0) 2 3 1 1 False
   = Inr (\<lparr>disp = False, size_gen = 3, max_iter = 2, alpha = 1, n_variables = 1,
         vector = [\<lparr>mu = Fin pi, std = Fin (1 / 2), vmin = 0, vmax = pi * 2\<rparr>], dead_iter = 2 / 5,
         best_mae_global = 999999999999, truncation_length = 3,
         generation = [[Fin pi], [Fin pi], [Fin pi]], best_ind_global = Scalar 9999999,
         history = [], evaluations = [0]\<rparr>,
          const_rng 0) \<and>
   set_size_gen 1
        \<lparr>disp = False, size_gen = 3, max_iter = 2, alpha = 1, n_variables = 1,
         vector = [\<lparr>mu = Fin pi, std = Fin (1 / 2), vmin = 0, vmax = pi * 2\<rparr>], dead_iter = 2 / 5,
         best_mae_global = 999999999999, truncation_length = 3,
         generation = [[Fin pi], [Fin pi], [Fin pi]], best_ind_global = Scalar 9999999,
         history = [], evaluations = [0]\<rparr>
   =    \<lparr>disp = False, size_gen = 1, max_iter = 2, alpha = 1, n_variables = 1,
         vector = [\<lparr>mu = Fin pi, std = Fin (1 / 2), vmin = 0, vmax = pi * 2\<rparr>], dead_iter = 2 / 5,
         best_mae_global = 999999999999, truncation_length = 3,
         generation = [[Fin pi], [Fin pi], [Fin pi]], best_ind_global = Scalar 9999999,
         history = [], evaluations = [0]\<rparr> \<and>
   iteration argsort_stable norm_fit (const_objective 0)
     \<lparr>opt =
        \<lparr>disp = False, size_gen = 1, max_iter = 2, alpha = 1, n_variables = 1,
         vector = [\<lparr>mu = Fin pi, std = Fin (1 / 2), vmin = 0, vmax = pi * 2\<rparr>], dead_iter = 2 / 5,
         best_mae_global = 999999999999, truncation_length = 3,
         generation = [[Fin pi], [Fin pi], [Fin pi]], best_ind_global = Scalar 9999999,
         history = [], evaluations = [0]\<rparr>,
      not_better = 0, gen_state = const_rng 0\<rparr>
   = Inr (\<lparr>opt =
        \<lparr>disp = False, size_gen = 1, max_iter = 2, alpha = 1, n_variables = 1,
         vector = [\<lparr>mu = Fin pi, std = Fin (3 / 10), vmin = 0, vmax = pi * 2\<rparr>], dead_iter = 2 / 5,
         best_mae_global = 0, truncation_length = 3,
         generation = [[Fin pi], [Fin pi]], best_ind_global = Point [Fin pi],
         history = [0], evaluations = [0, 0, 0]\<rparr>,
      not_better = 0, gen_state = const_rng 0\<rparr>, False) \<and>
   new_generation (const_rng 0)
        \<lparr>disp = False, size_gen = 1, max_iter = 2, alpha = 1, n_variables = 1,
         vector = [\<lparr>mu = Fin pi, std = Fin (3 / 10), vmin = 0, vmax = pi * 2\<rparr>], dead_iter = 2 / 5,
         best_mae_global = 0, truncation_length = 3,
         generation = [[Fin pi], [Fin pi]], best_ind_global = Point [Fin pi],
         history = [0, 0], evaluations = [0, 0]\<rparr>
   = Inr (
        \<lparr>disp = False, size_gen = 1, max_iter = 2, alpha = 1, n_variables = 1,
         vector = [\<lparr>mu = Fin pi, std = Fin (3 / 10), vmin = 0, vmax = pi * 2\<rparr>], dead_iter = 2 / 5,
         best_mae_global = 0, truncation_length = 3,
         generation = [[Fin pi]], best_ind_global = Point [Fin pi],
         history = [0, 0], evaluations = [0, 0]\<rparr>,
      const_rng 0) \<and>
   iteration argsort_stable norm_fit (const_objective 0)
     \<lparr>opt =
        \<lparr>disp = False, size_gen = 1, max_iter = 2, alpha = 1, n_variables = 1,
         vector = [\<lparr>mu = Fin pi, std = Fin (3 / 10), vmin = 0, vmax = pi * 2\<rparr>], dead_iter = 2 / 5,
         best_mae_global = 0, truncation_length = 3,
         generation = [[Fin pi], [Fin pi]], best_ind_global = Point [Fin pi],
         history = [0], evaluations = [0, 0, 0]\<rparr>,
      not_better = 0, gen_state = const_rng 0\<rparr>
   = Inr (\<lparr>opt =
        \<lparr>disp = False, size_gen = 1, max_iter = 2, alpha = 1, n_variables = 1,
         vector = [\<lparr>mu = Fin pi, std = Fin (3 / 10), vmin = 0, vmax = pi * 2\<rparr>], dead_iter = 2 / 5,
         best_mae_global = 0, truncation_length = 3,
         generation = [[Fin pi]], best_ind_global = Point [Fin pi],
         history = [0, 0], evaluations = [0, 0]\<rparr>,
      not_better = 1, gen_state = const_rng 0\<rparr>, False) \<and>
   minimize argsort_stable norm_fit (const_objective 0) [0]
        \<lparr>disp = False, size_gen = 1, max_iter = 2, alpha = 1, n_variables = 1,
         vector = [\<lparr>mu = Fin pi, std = Fin (1 / 2), vmin = 0, vmax = pi * 2\<rparr>], dead_iter = 2 / 5,
         best_mae_global = 999999999999, truncation_length = 3,
         generation = [[Fin pi], [Fin pi], [Fin pi]], best_ind_global = Scalar 9999999,
         history = [], evaluations = [0]\<rparr>
        (const_rng 0)
   = Inr (\<lparr>x = Point [Fin pi], fn = 0, nfev = 2\<rparr>,
        \<lparr>disp = False, size_gen = 1, max_iter = 2, alpha = 1, n_variables = 1,
         vector = [\<lparr>mu = Fin pi, std = Fin (3 / 10), vmin = 0, vmax = pi * 2\<rparr>], dead_iter = 2 / 5,
         best_mae_global = 0, truncation_length = 3,
         generation = [[Fin pi]], best_ind_global = Point [Fin pi],
         history = [0, 0], evaluations = [0, 0]\<rparr>,
        const_rng 0, [(0, 0), (0, 1)]) \<and>
   int (length [[Fin pi]]) \<noteq> \<lfloor>4 / 10 * real_of_int 3\<rfloor> + 1"
  by (simp add: run_defs set_size_gen_def)

subsection \<open>One iteration and the loop\<close>

lemma check_generation_Inr:
  "check_generation f s = Inr s' \<Longrightarrow> s' = s\<lparr>evaluations := map f (generation s)\<rparr>"
  by (auto simp: check_generation_def split: if_splits)

lemma truncation_Inr:
  assumes "truncation A s = Inr s'"
  shows "\<exists>idx. s' = s\<lparr>generation := map (\<lambda>i. generation s ! i) idx,
                        evaluations := map (\<lambda>i. evaluations s ! i) idx\<rparr> \<and>
               (\<forall>i\<in>set idx. i < length (evaluations s))"
  using assms by (auto simp: truncation_def Let_def list_ex_iff not_le split: if_splits)

lemma new_generation_Inr:
  "new_generation g s = Inr (s', g') \<Longrightarrow> \<exists>gen. s' = s\<lparr>generation := gen\<rparr>"
  by (auto simp: new_generation_def bind_eq_Inr Let_def split: if_splits)

lemma fold_min_in: "fold min ys (y::real) \<in> set (y # ys)"
  by (induction ys arbitrary: y) (auto simp: min_def)

lemma py_min_Inr: "py_min xs = Inr m \<Longrightarrow> m \<in> set xs"
  using fold_min_in by (auto simp: py_min_def split: list.splits)

text \<open>What one iteration does to the bookkeeping.\<close>

lemma iteration_step:
  assumes "iteration A F f st = Inr (st', stop)"
  shows "\<exists>h. h \<in> f ` set (generation (opt st)) \<and>
           history (opt st') = history (opt st) @ [h] \<and>
           (if h < best_mae_global (opt st)
            then best_mae_global (opt st') = h \<and> (\<exists>p. best_ind_global (opt st') = Point p) \<and>
                 not_better st' = 0 \<and> \<not> stop
            else best_mae_global (opt st') = best_mae_global (opt st) \<and>
                 best_ind_global (opt st') = best_ind_global (opt st) \<and>
                 not_better st' = not_better st + 1 \<and>
                 (stop \<longleftrightarrow> real_of_int (not_better st + 1) = dead_iter (opt st))) \<and>
           dead_iter (opt st') = dead_iter (opt st) \<and> size_gen (opt st') = size_gen (opt st) \<and>
           max_iter (opt st') = max_iter (opt st) \<and>
           truncation_length (opt st') = truncation_length (opt st) \<and>
           n_variables (opt st') = n_variables (opt st) \<and> alpha (opt st') = alpha (opt st)"
proof -
  from assms [unfolded iteration_def Let_def bind_eq_Inr] obtain s1 s2 s3 h k where
    c: "check_generation f (opt st) = Inr s1" and t: "truncation A s1 = Inr s2"
    and u: "update_vector F s2 = Inr s3" and m: "py_min (evaluations s3) = Inr h"
    and rest: "(if length (generation (s3\<lparr>history := history s3 @ [h]\<rparr>)) \<le> k then Inl IndexError
       else if h < best_mae_global (s3\<lparr>history := history s3 @ [h]\<rparr>)
         then bind (new_generation (gen_state st)
                   (s3\<lparr>history := history s3 @ [h], best_mae_global := h,
                       best_ind_global := Point (generation (s3\<lparr>history := history s3 @ [h]\<rparr>) ! k)\<rparr>))
             (\<lambda>(s5, g'). Inr (\<lparr>opt = s5, not_better = 0, gen_state = g'\<rparr>, False))
         else
           if real_of_int (not_better st + 1) = dead_iter (s3\<lparr>history := history s3 @ [h]\<rparr>)
           then Inr (\<lparr>opt = s3\<lparr>history := history s3 @ [h]\<rparr>, not_better = not_better st + 1,
                      gen_state = gen_state st\<rparr>, True)
           else bind (new_generation (gen_state st) (s3\<lparr>history := history s3 @ [h]\<rparr>))
                  (\<lambda>(s5, g'). Inr (\<lparr>opt = s5, not_better = not_better st + 1, gen_state = g'\<rparr>, False)))
       = Inr (st', stop)"
    by blast
  from check_generation_Inr [OF c] have s1: "s1 = (opt st)\<lparr>evaluations := map f (generation (opt st))\<rparr>" .
  from truncation_Inr [OF t] obtain idx where
    s2: "s2 = s1\<lparr>generation := map (\<lambda>i. generation s1 ! i) idx,
                   evaluations := map (\<lambda>i. evaluations s1 ! i) idx\<rparr>"
    and idx: "\<forall>i\<in>set idx. i < length (evaluations s1)" by blast
  from update_vector_frame [OF u] obtain v where s3: "s3 = s2\<lparr>vector := v\<rparr>" by blast
  from py_min_Inr [OF m] have "h \<in> set (evaluations s3)" .
  then have hin: "h \<in> f ` set (generation (opt st))"
    using idx by (auto simp: s3 s2 s1)
  have best3: "best_mae_global s3 = best_mae_global (opt st)"
    and dead3: "dead_iter s3 = dead_iter (opt st)"
    by (simp_all add: s3 s2 s1)
  show ?thesis
  proof (cases "h < best_mae_global s3")
    case True
    with rest obtain s5 g' where
      ng: "new_generation (gen_state st) (s3\<lparr>history := history s3 @ [h], best_mae_global := h,
                       best_ind_global := Point (generation s3 ! k)\<rparr>) = Inr (s5, g')"
      and st': "st' = \<lparr>opt = s5, not_better = 0, gen_state = g'\<rparr>" and "\<not> stop"
      by (auto simp: bind_eq_Inr split: if_splits)
    from new_generation_Inr [OF ng] obtain gen where
      "s5 = s3\<lparr>history := history s3 @ [h], best_mae_global := h,
                best_ind_global := Point (generation s3 ! k), generation := gen\<rparr>" by auto
    with True hin st' \<open>\<not> stop\<close> show ?thesis
      by (intro exI [of _ h]) (simp add: s3 s2 s1)
  next
    case False
    show ?thesis
    proof (cases "real_of_int (not_better st + 1) = dead_iter s3")
      case True
      with False rest have "st' = \<lparr>opt = s3\<lparr>history := history s3 @ [h]\<rparr>,
          not_better = not_better st + 1, gen_state = gen_state st\<rparr>" and stop
        by (auto split: if_splits)
      with False True hin show ?thesis
        by (intro exI [of _ h]) (simp add: s3 s2 s1)
    next
      case nd: False
      with False rest obtain s5 g' where
        ng: "new_generation (gen_state st) (s3\<lparr>history := history s3 @ [h]\<rparr>) = Inr (s5, g')"
        and st': "st' = \<lparr>opt = s5, not_better = not_better st + 1, gen_state = g'\<rparr>" and "\<not> stop"
        by (auto simp: bind_eq_Inr split: if_splits)
      from new_generation_Inr [OF ng] obtain gen where
        "s5 = s3\<lparr>history := history s3 @ [h], generation := gen\<rparr>" by auto
      with False nd hin st' \<open>\<not> stop\<close> show ?thesis
        by (intro exI [of _ h]) (simp add: s3 s2 s1)
    qed
  qed
qed

lemma for_loop_trace:
  assumes "for_loop A F f n st = Inr (st', tr)"
  shows "\<exists>hs. history (opt st') = history (opt st) @ hs \<and>
           loop_trace (dead_iter (opt st)) n (best_mae_global (opt st)) (not_better st) hs tr \<and>
           (hs \<noteq> [] \<longrightarrow> hd hs \<in> f ` set (generation (opt st))) \<and>
           best_mae_global (opt st') = last (best_mae_global (opt st) # map fst tr) \<and>
           ((\<forall>h\<in>set hs. best_mae_global (opt st) \<le> h) \<longrightarrow>
              best_ind_global (opt st') = best_ind_global (opt st)) \<and>
           dead_iter (opt st') = dead_iter (opt st) \<and> size_gen (opt st') = size_gen (opt st) \<and>
           max_iter (opt st') = max_iter (opt st) \<and>
           truncation_length (opt st') = truncation_length (opt st) \<and>
           n_variables (opt st') = n_variables (opt st) \<and> alpha (opt st') = alpha (opt st)"
  using assms
proof (induction n arbitrary: st st' tr)
  case 0
  then show ?case by simp
next
  case (Suc n)
  from Suc.prems obtain st1 stop where
    it: "iteration A F f st = Inr (st1, stop)"
    and rest: "(if stop then Inr (st1, [(best_mae_global (opt st1), not_better st1)])
                else bind (for_loop A F f n st1)
                       (\<lambda>(st'', tr). Inr (st'', (best_mae_global (opt st1), not_better st1) # tr)))
               = Inr (st', tr)"
    by (auto simp: bind_eq_Inr Let_def)
  from iteration_step [OF it] obtain h where
    hin: "h \<in> f ` set (generation (opt st))"
    and hist: "history (opt st1) = history (opt st) @ [h]"
    and upd: "if h < best_mae_global (opt st)
            then best_mae_global (opt st1) = h \<and> (\<exists>p. best_ind_global (opt st1) = Point p) \<and>
                 not_better st1 = 0 \<and> \<not> stop
            else best_mae_global (opt st1) = best_mae_global (opt st) \<and>
                 best_ind_global (opt st1) = best_ind_global (opt st) \<and>
                 not_better st1 = not_better st + 1 \<and>
                 (stop \<longleftrightarrow> real_of_int (not_better st + 1) = dead_iter (opt st))"
    and frame: "dead_iter (opt st1) = dead_iter (opt st)" "size_gen (opt st1) = size_gen (opt st)"
           "max_iter (opt st1) = max_iter (opt st)"
           "truncation_length (opt st1) = truncation_length (opt st)"
           "n_variables (opt st1) = n_variables (opt st)" "alpha (opt st1) = alpha (opt st)"
    by blast
  show ?case
  proof (cases stop)
    case True
    with rest have "st' = st1" "tr = [(best_mae_global (opt st1), not_better st1)]"
      by auto
    with True hin hist upd frame show ?thesis
      by (intro exI [of _ "[h]"]) (auto split: if_splits)
  next
    case False
    with rest obtain tr1 where
      loop: "for_loop A F f n st1 = Inr (st', tr1)"
      and tr: "tr = (best_mae_global (opt st1), not_better st1) # tr1"
      by (auto simp: bind_eq_Inr)
    from Suc.IH [OF loop] obtain hs where
      h1: "history (opt st') = history (opt st1) @ hs"
      and l1: "loop_trace (dead_iter (opt st1)) n (best_mae_global (opt st1)) (not_better st1) hs tr1"
      and b1: "best_mae_global (opt st') = last (best_mae_global (opt st1) # map fst tr1)"
      and i1: "(\<forall>h\<in>set hs. best_mae_global (opt st1) \<le> h) \<longrightarrow>
              best_ind_global (opt st') = best_ind_global (opt st1)"
      and f1: "dead_iter (opt st') = dead_iter (opt st1)" "size_gen (opt st') = size_gen (opt st1)"
           "max_iter (opt st') = max_iter (opt st1)"
           "truncation_length (opt st') = truncation_length (opt st1)"
           "n_variables (opt st') = n_variables (opt st1)" "alpha (opt st') = alpha (opt st1)"
      by blast
    have a: "history (opt st') = history (opt st) @ (h # hs)"
      using h1 hist by simp
    have b: "loop_trace (dead_iter (opt st)) (Suc n) (best_mae_global (opt st)) (not_better st)
               (h # hs) tr"
      using l1 upd False frame(1) by (auto simp: tr split: if_splits)
    have c: "best_mae_global (opt st') = last (best_mae_global (opt st) # map fst tr)"
      using b1 by (simp add: tr)
    have d: "(\<forall>k\<in>set (h # hs). best_mae_global (opt st) \<le> k) \<longrightarrow>
              best_ind_global (opt st') = best_ind_global (opt st)"
      using i1 upd by (auto split: if_splits)
    from a b c d hin f1 frame show ?thesis
      by (intro exI [of _ "h # hs"]) simp
  qed
qed

lemma loop_trace_length:
  "loop_trace d n b c hs tr \<Longrightarrow> length tr = length hs \<and> length hs \<le> n"
  by (induction hs arbitrary: n b c tr) (auto split: nat.splits list.splits if_splits)

lemma loop_trace_best:
  "loop_trace d n b c hs tr \<Longrightarrow> j < length tr \<Longrightarrow>
     fst (tr ! j) = min (if j = 0 then b else fst (tr ! (j - 1))) (hs ! j)"
proof (induction hs arbitrary: n b c tr j)
  case Nil
  then show ?case by simp
next
  case (Cons h hs)
  from Cons.prems obtain m e tr' where n: "n = Suc m" and tr: "tr = e # tr'"
    by (auto split: nat.splits list.splits)
  show ?case
  proof (cases j)
    case 0
    with Cons.prems show ?thesis
      by (auto simp: n tr min_def split: if_splits)
  next
    case (Suc k)
    with Cons.prems have k: "k < length tr'" by (simp add: tr)
    from Cons.prems(1) have "\<exists>c'. loop_trace d m (fst e) c' hs tr'"
      using k by (auto simp: n tr split: if_splits)
    then obtain c' where "loop_trace d m (fst e) c' hs tr'" by blast
    from Cons.IH [OF this k] show ?thesis
      by (cases k) (simp_all add: tr Suc)
  qed
qed

lemma loop_trace_antimono:
  "loop_trace d n b c hs tr \<Longrightarrow> sorted_wrt (\<ge>) (b # map fst tr)"
proof (induction hs arbitrary: n b c tr)
  case Nil
  then show ?case by simp
next
  case (Cons h hs)
  from Cons.prems obtain m e tr' where n: "n = Suc m" and tr: "tr = e # tr'"
    by (auto split: nat.splits list.splits)
  from Cons.prems have e: "fst e \<le> b"
    by (auto simp: n tr split: if_splits)
  have "sorted_wrt (\<ge>) (fst e # map fst tr')"
  proof (cases "tr' = []")
    case True
    then show ?thesis by simp
  next
    case False
    with Cons.prems have "\<exists>c'. loop_trace d m (fst e) c' hs tr'"
      by (auto simp: n tr split: if_splits)
    then obtain c' where "loop_trace d m (fst e) c' hs tr'" by blast
    from Cons.IH [OF this] show ?thesis .
  qed
  with e show ?case
    by (auto simp: tr)
qed

lemma loop_trace_no_improvement:
  "loop_trace d n b c hs tr \<Longrightarrow> \<forall>h\<in>set hs. b \<le> h \<Longrightarrow> \<forall>e\<in>set tr. fst e = b"
  by (induction hs arbitrary: n c tr) (auto split: nat.splits list.splits if_splits)

lemma loop_trace_early_stop:
  "loop_trace d n b c hs tr \<Longrightarrow> length tr < n \<Longrightarrow>
     tr \<noteq> [] \<and> real_of_int (snd (last tr)) = d"
  by (induction hs arbitrary: n b c tr) (auto split: nat.splits list.splits if_splits)

lemma loop_trace_counter:
  "loop_trace d n b c hs tr \<Longrightarrow> j < length tr \<Longrightarrow>
     snd (tr ! j) = (if hs ! j < (if j = 0 then b else fst (tr ! (j - 1))) then 0
                     else (if j = 0 then c else snd (tr ! (j - 1))) + 1)"
proof (induction hs arbitrary: n b c tr j)
  case Nil
  then show ?case by simp
next
  case (Cons h hs)
  from Cons.prems obtain m e tr' where n: "n = Suc m" and tr: "tr = e # tr'"
    by (auto split: nat.splits list.splits)
  show ?case
  proof (cases j)
    case 0
    with Cons.prems show ?thesis
      by (auto simp: n tr split: if_splits)
  next
    case (Suc k)
    with Cons.prems have k: "k < length tr'" by (simp add: tr)
    from Cons.prems(1) have "loop_trace d m (fst e) (snd e) hs tr'"
      using k by (auto simp: n tr split: if_splits)
    from Cons.IH [OF this k] show ?thesis
      by (cases k) (simp_all add: tr Suc)
  qed
qed

lemma last_all_eq: "\<forall>e\<in>set tr. fst e = b \<Longrightarrow> last (b # map fst tr) = b"
  by (induction tr) auto

lemma sorted_wrt_ge_last:
  fixes b :: real
  shows "sorted_wrt (\<ge>) (b # xs) \<Longrightarrow> last (b # xs) \<le> b"
  by (induction xs arbitrary: b) auto

lemma minimize_trace:
  assumes "minimize A F f x0 s g = Inr (r, s', g', tr)"
  shows "loop_trace (dead_iter s) (nat (max_iter s)) (best_mae_global s) 0 (history s') tr"
    and "history s' \<noteq> [] \<longrightarrow> hd (history s') \<in> f ` set (generation s)"
    and "fn r = last (best_mae_global s # map fst tr)"
    and "(\<forall>h\<in>set (history s'). best_mae_global s \<le> h) \<longrightarrow> x r = best_ind_global s"
    and "nfev r = int (length (history s')) * size_gen s"
    and "dead_iter s' = dead_iter s" "size_gen s' = size_gen s" "max_iter s' = max_iter s"
      "truncation_length s' = truncation_length s" "n_variables s' = n_variables s"
      "alpha s' = alpha s"
proof -
  let ?st0 = "\<lparr>opt = s\<lparr>history := []\<rparr>, not_better = 0, gen_state = g\<rparr>"
  from assms obtain st' where
    loop: "for_loop A F f (nat (max_iter s)) ?st0 = Inr (st', tr)"
    and r: "r = \<lparr>x = best_ind_global (opt st'), fn = best_mae_global (opt st'),
                  nfev = int (length (history (opt st'))) * size_gen (opt st')\<rparr>"
    and s': "s' = opt st'"
    by (auto simp: minimize_def Let_def bind_eq_Inr)
  from for_loop_trace [OF loop] obtain hs where
    "history (opt st') = history (opt ?st0) @ hs"
    "loop_trace (dead_iter (opt ?st0)) (nat (max_iter s)) (best_mae_global (opt ?st0))
       (not_better ?st0) hs tr"
    "hs \<noteq> [] \<longrightarrow> hd hs \<in> f ` set (generation (opt ?st0))"
    "best_mae_global (opt st') = last (best_mae_global (opt ?st0) # map fst tr)"
    "(\<forall>h\<in>set hs. best_mae_global (opt ?st0) \<le> h) \<longrightarrow>
              best_ind_global (opt st') = best_ind_global (opt ?st0)"
    "dead_iter (opt st') = dead_iter (opt ?st0)" "size_gen (opt st') = size_gen (opt ?st0)"
    "max_iter (opt st') = max_iter (opt ?st0)"
    "truncation_length (opt st') = truncation_length (opt ?st0)"
    "n_variables (opt st') = n_variables (opt ?st0)" "alpha (opt st') = alpha (opt ?st0)"
    by blast
  then show "loop_trace (dead_iter s) (nat (max_iter s)) (best_mae_global s) 0 (history s') tr"
    and "history s' \<noteq> [] \<longrightarrow> hd (history s') \<in> f ` set (generation s)"
    and "fn r = last (best_mae_global s # map fst tr)"
    and "(\<forall>h\<in>set (history s'). best_mae_global s \<le> h) \<longrightarrow> x r = best_ind_global s"
    and "nfev r = int (length (history s')) * size_gen s"
    and "dead_iter s' = dead_iter s" "size_gen s' = size_gen s" "max_iter s' = max_iter s"
      "truncation_length s' = truncation_length s" "n_variables s' = n_variables s"
      "alpha s' = alpha s"
    by (simp_all add: r s')
qed

subsection \<open>The loop of minimize\<close>

text \<open>
  C4. Every call of \<^verbatim>\<open>minimize\<close> that returns reports as evaluation count the number of
  iterations it ran (the length of the trace) times \<^verbatim>\<open>size_gen\<close>; the history holds one
  entry per iteration, and there are at most \<^verbatim>\<open>max_iter\<close> iterations. The count does not
  look at the number of rows the objective was applied to.
\<close>

theorem evaluation_count:
  assumes "minimize argsort fit f x0 s g = Inr (r, s', g', tr)"
  shows "nfev r = int (length tr) * size_gen s \<and> length (history s') = length tr \<and>
         length tr \<le> nat (max_iter s)"
  using minimize_trace(1,5) [OF assms] loop_trace_length by fastforce

text \<open>
  The theorem at a run of two iterations with four individuals per draw. One elite row is
  carried over, so the objective is called 4 + 5 times, and the count returned is 2 * 4.
\<close>

theorem evaluation_count_witness:
  "minimize argsort_stable norm_fit (const_objective 0) [0]
     \<lparr>disp = False, size_gen = 4, max_iter = 5, alpha = 3 / 4, n_variables = 1,
         vector = [\<lparr>mu = Fin pi, std = Fin (1 / 2), vmin = 0, vmax = pi * 2\<rparr>], dead_iter = 1,
         best_mae_global = 999999999999, truncation_length = 3,
         generation = [[Fin pi], [Fin pi], [Fin pi], [Fin pi]], best_ind_global = Scalar 9999999,
         history = [], evaluations = [0]\<rparr>
     (const_rng 0)
   = Inr (\<lparr>x = Point [Fin pi], fn = 0, nfev = 8\<rparr>,
          \<lparr>disp = False, size_gen = 4, max_iter = 5, alpha = 3 / 4, n_variables = 1,
         vector = [\<lparr>mu = Fin pi, std = Fin (3 / 10), vmin = 0, vmax = pi * 2\<rparr>], dead_iter = 1,
         best_mae_global = 0, truncation_length = 3,
         generation = [[Fin pi], [Fin pi], [Fin pi]], best_ind_global = Point [Fin pi],
         history = [0, 0], evaluations = [0, 0, 0]\<rparr>,
          const_rng 0, [(0, 0), (0, 1)])
   \<and> nfev \<lparr>x = Point [Fin pi], fn = 0, nfev = 8\<rparr> = int (length [(0 :: real, 0 :: int), (0, 1)]) * 4"
proof -
  have run: "minimize argsort_stable norm_fit (const_objective 0) [0]
     \<lparr>disp = False, size_gen = 4, max_iter = 5, alpha = 3 / 4, n_variables = 1,
         vector = [\<lparr>mu = Fin pi, std = Fin (1 / 2), vmin = 0, vmax = pi * 2\<rparr>], dead_iter = 1,
         best_mae_global = 999999999999, truncation_length = 3,
         generation = [[Fin pi], [Fin pi], [Fin pi], [Fin pi]], best_ind_global = Scalar 9999999,
         history = [], evaluations = [0]\<rparr>
     (const_rng 0)
   = Inr (\<lparr>x = Point [Fin pi], fn = 0, nfev = 8\<rparr>,
          \<lparr>disp = False, size_gen = 4, max_iter = 5, alpha = 3 / 4, n_variables = 1,
         vector = [\<lparr>mu = Fin pi, std = Fin (3 / 10), vmin = 0, vmax = pi * 2\<rparr>], dead_iter = 1,
         best_mae_global = 0, truncation_length = 3,
         generation = [[Fin pi], [Fin pi], [Fin pi]], best_ind_global = Point [Fin pi],
         history = [0, 0], evaluations = [0, 0, 0]\<rparr>,
          const_rng 0, [(0, 0), (0, 1)])"
    by (simp add: run_defs)
  from evaluation_count [OF run] run show ?thesis
    by simp
qed

text \<open>
  C6. In every call of \<^verbatim>\<open>minimize\<close> that returns, the best-ever fitness after iteration
  \<open>j\<close> is the best fitness of that iteration when this is strictly smaller than the
  best-ever fitness before the iteration, and the best-ever fitness before the iteration
  otherwise. Hence the sequence of best-ever values, from the value at the start of the call
  on, never increases, and the value returned is its last element.
\<close>

theorem best_ever_never_regresses:
  assumes "minimize argsort fit f x0 s g = Inr (r, s', g', tr)"
  shows "(\<forall>j<length tr.
            fst (tr ! j) =
              (if history s' ! j < (if j = 0 then best_mae_global s else fst (tr ! (j - 1)))
               then history s' ! j
               else (if j = 0 then best_mae_global s else fst (tr ! (j - 1))))) \<and>
         sorted_wrt (\<ge>) (best_mae_global s # map fst tr) \<and>
         fn r = last (best_mae_global s # map fst tr) \<and> fn r \<le> best_mae_global s"
proof -
  note lt = minimize_trace(1) [OF assms]
  have a: "fst (tr ! j) =
              (if history s' ! j < (if j = 0 then best_mae_global s else fst (tr ! (j - 1)))
               then history s' ! j
               else (if j = 0 then best_mae_global s else fst (tr ! (j - 1))))"
    if "j < length tr" for j
    using loop_trace_best [OF lt that] by (auto simp: min_def)
  have b: "sorted_wrt (\<ge>) (best_mae_global s # map fst tr)"
    by (rule loop_trace_antimono [OF lt])
  have c: "fn r = last (best_mae_global s # map fst tr)"
    by (rule minimize_trace(3) [OF assms])
  have d: "fn r \<le> best_mae_global s"
    unfolding c by (rule sorted_wrt_ge_last [OF b])
  from a b c d show ?thesis by blast
qed

text \<open>
  The theorem at a run of three iterations whose best fitness is 0.3, then 0, then 0.3:
  the best-ever value goes from the sentinel to 0.3 and to 0, and stays there.
\<close>

theorem best_ever_never_regresses_witness:
  "minimize argsort_stable norm_fit (\<lambda>v. \<bar>the_fin (v ! 0) - (pi - 4 / 5)\<bar>) [0]
     \<lparr>disp = False, size_gen = 2, max_iter = 5, alpha = 1 / 2, n_variables = 1,
         vector = [\<lparr>mu = Fin pi, std = Fin (1 / 2), vmin = 0, vmax = pi * 2\<rparr>], dead_iter = 1,
         best_mae_global = 999999999999, truncation_length = 1,
         generation = [[Fin (pi - 1 / 2)], [Fin (pi - 1 / 2)]], best_ind_global = Scalar 9999999,
         history = [], evaluations = [0]\<rparr>
     (const_rng (- 1))
   = Inr (\<lparr>x = Point [Fin (pi - 4 / 5)], fn = 0, nfev = 6\<rparr>,
          \<lparr>disp = False, size_gen = 2, max_iter = 5, alpha = 1 / 2, n_variables = 1,
         vector = [\<lparr>mu = Fin (pi - 11 / 10), std = Fin (3 / 10), vmin = 0, vmax = pi * 2\<rparr>], dead_iter = 1,
         best_mae_global = 0, truncation_length = 1,
         generation = [[Fin (pi - 11 / 10)]], best_ind_global = Point [Fin (pi - 4 / 5)],
         history = [3 / 10, 0, 3 / 10], evaluations = [3 / 10]\<rparr>,
          const_rng (- 1), [(3 / 10, 0), (0, 0), (0, 1)])
   \<and> sorted_wrt (\<ge>) [999999999999, 3 / 10, 0, 0 :: real]"
proof -
  have run: "minimize argsort_stable norm_fit (\<lambda>v. \<bar>the_fin (v ! 0) - (pi - 4 / 5)\<bar>) [0]
     \<lparr>disp = False, size_gen = 2, max_iter = 5, alpha = 1 / 2, n_variables = 1,
         vector = [\<lparr>mu = Fin pi, std = Fin (1 / 2), vmin = 0, vmax = pi * 2\<rparr>], dead_iter = 1,
         best_mae_global = 999999999999, truncation_length = 1,
         generation = [[Fin (pi - 1 / 2)], [Fin (pi - 1 / 2)]], best_ind_global = Scalar 9999999,
         history = [], evaluations = [0]\<rparr>
     (const_rng (- 1))
   = Inr (\<lparr>x = Point [Fin (pi - 4 / 5)], fn = 0, nfev = 6\<rparr>,
          \<lparr>disp = False, size_gen = 2, max_iter = 5, alpha = 1 / 2, n_variables = 1,
         vector = [\<lparr>mu = Fin (pi - 11 / 10), std = Fin (3 / 10), vmin = 0, vmax = pi * 2\<rparr>], dead_iter = 1,
         best_mae_global = 0, truncation_length = 1,
         generation = [[Fin (pi - 11 / 10)]], best_ind_global = Point [Fin (pi - 4 / 5)],
         history = [3 / 10, 0, 3 / 10], evaluations = [3 / 10]\<rparr>,
          const_rng (- 1), [(3 / 10, 0), (0, 0), (0, 1)])"
    by (simp add: run_defs)
  from best_ever_never_regresses [OF run] run show ?thesis
    by simp
qed

text \<open>
  C10 (as the code has it). When \<^verbatim>\<open>minimize\<close> is called on an optimizer whose best-ever
  record still holds the two values of the construction, the fitness 999999999999 and the
  integer 9999999, and no iteration of the call has a best fitness strictly below
  999999999999 (the history holds the best fitness of every iteration), the result has
  \<^verbatim>\<open>fun\<close> 999999999999 and as \<^verbatim>\<open>x\<close> the integer 9999999, not a point.
\<close>

theorem sentinels_returned_without_improvement:
  assumes "minimize argsort fit f x0 s g = Inr (r, s', g', tr)"
    and "best_mae_global s = 999999999999"
    and "best_ind_global s = Scalar 9999999"
    and "\<forall>h\<in>set (history s'). 999999999999 \<le> h"
  shows "fn r = 999999999999 \<and> x r = Scalar 9999999"
proof -
  from assms(2,4) have all: "\<forall>h\<in>set (history s'). best_mae_global s \<le> h" by simp
  from loop_trace_no_improvement [OF minimize_trace(1) [OF assms(1)] all]
  have "last (best_mae_global s # map fst tr) = best_mae_global s"
    by (rule last_all_eq)
  with minimize_trace(3,4) [OF assms(1)] all assms(2,3) show ?thesis by simp
qed

text \<open>
  The theorem at a freshly constructed optimizer and an objective that is 999999999999
  everywhere: the run ends after one iteration and returns the two values of the
  construction.
\<close>

theorem sentinels_returned_without_improvement_witness:
  "UMDA_init (const_rng 0) 5 2 1 (1 / 2) False
   = Inr (\<lparr>disp = False, size_gen = 2, max_iter = 5, alpha = 1 / 2, n_variables = 1,
         vector = [\<lparr>mu = Fin pi, std = Fin (1 / 2), vmin = 0, vmax = pi * 2\<rparr>], dead_iter = 1,
         best_mae_global = 999999999999, truncation_length = 1,
         generation = [[Fin pi], [Fin pi]], best_ind_global = Scalar 9999999,
         history = [], evaluations = [0]\<rparr>,
          const_rng 0)
   \<and> minimize argsort_stable norm_fit (const_objective 999999999999) [0]
     \<lparr>disp = False, size_gen = 2, max_iter = 5, alpha = 1 / 2, n_variables = 1,
         vector = [\<lparr>mu = Fin pi, std = Fin (1 / 2), vmin = 0, vmax = pi * 2\<rparr>], dead_iter = 1,
         best_mae_global = 999999999999, truncation_length = 1,
         generation = [[Fin pi], [Fin pi]], best_ind_global = Scalar 9999999,
         history = [], evaluations = [0]\<rparr>
     (const_rng 0)
   = Inr (\<lparr>x = Scalar 9999999, fn = 999999999999, nfev = 2\<rparr>,
          \<lparr>disp = False, size_gen = 2, max_iter = 5, alpha = 1 / 2, n_variables = 1,
         vector = [\<lparr>mu = Fin pi, std = Fin (3 / 10), vmin = 0, vmax = pi * 2\<rparr>], dead_iter = 1,
         best_mae_global = 999999999999, truncation_length = 1,
         generation = [[Fin pi]], best_ind_global = Scalar 9999999,
         history = [999999999999], evaluations = [999999999999]\<rparr>,
          const_rng 0, [(999999999999, 1)])"
proof -
  have init: "UMDA_init (const_rng 0) 5 2 1 (1 / 2) False
   = Inr (\<lparr>disp = False, size_gen = 2, max_iter = 5, alpha = 1 / 2, n_variables = 1,
         vector = [\<lparr>mu = Fin pi, std = Fin (1 / 2), vmin = 0, vmax = pi * 2\<rparr>], dead_iter = 1,
         best_mae_global = 999999999999, truncation_length = 1,
         generation = [[Fin pi], [Fin pi]], best_ind_global = Scalar 9999999,
         history = [], evaluations = [0]\<rparr>,
          const_rng 0)"
    by (simp add: run_defs)
  have run: "minimize argsort_stable norm_fit (const_objective 999999999999) [0]
     \<lparr>disp = False, size_gen = 2, max_iter = 5, alpha = 1 / 2, n_variables = 1,
         vector = [\<lparr>mu = Fin pi, std = Fin (1 / 2), vmin = 0, vmax = pi * 2\<rparr>], dead_iter = 1,
         best_mae_global = 999999999999, truncation_length = 1,
         generation = [[Fin pi], [Fin pi]], best_ind_global = Scalar 9999999,
         history = [], evaluations = [0]\<rparr>
     (const_rng 0)
   = Inr (\<lparr>x = Scalar 9999999, fn = 999999999999, nfev = 2\<rparr>,
          \<lparr>disp = False, size_gen = 2, max_iter = 5, alpha = 1 / 2, n_variables = 1,
         vector = [\<lparr>mu = Fin pi, std = Fin (3 / 10), vmin = 0, vmax = pi * 2\<rparr>], dead_iter = 1,
         best_mae_global = 999999999999, truncation_length = 1,
         generation = [[Fin pi]], best_ind_global = Scalar 9999999,
         history = [999999999999], evaluations = [999999999999]\<rparr>,
          const_rng 0, [(999999999999, 1)])"
    by (simp add: run_defs)
  have b: "best_mae_global
       \<lparr>disp = False, size_gen = 2, max_iter = 5, alpha = 1 / 2, n_variables = 1,
         vector = [\<lparr>mu = Fin pi, std = Fin (1 / 2), vmin = 0, vmax = pi * 2\<rparr>], dead_iter = 1,
         best_mae_global = 999999999999, truncation_length = 1,
         generation = [[Fin pi], [Fin pi]], best_ind_global = Scalar 9999999,
         history = [], evaluations = [0]\<rparr> = 999999999999"
    "best_ind_global
       \<lparr>disp = False, size_gen = 2, max_iter = 5, alpha = 1 / 2, n_variables = 1,
         vector = [\<lparr>mu = Fin pi, std = Fin (1 / 2), vmin = 0, vmax = pi * 2\<rparr>], dead_iter = 1,
         best_mae_global = 999999999999, truncation_length = 1,
         generation = [[Fin pi], [Fin pi]], best_ind_global = Scalar 9999999,
         history = [], evaluations = [0]\<rparr> = Scalar 9999999"
    by simp_all
  have "\<forall>h\<in>set (history
       \<lparr>disp = False, size_gen = 2, max_iter = 5, alpha = 1 / 2, n_variables = 1,
         vector = [\<lparr>mu = Fin pi, std = Fin (3 / 10), vmin = 0, vmax = pi * 2\<rparr>], dead_iter = 1,
         best_mae_global = 999999999999, truncation_length = 1,
         generation = [[Fin pi]], best_ind_global = Scalar 9999999,
         history = [999999999999], evaluations = [999999999999]\<rparr>). 999999999999 \<le> h"
    by simp
  from sentinels_returned_without_improvement [OF run b this] init run show ?thesis
    by simp
qed

text \<open>
  An optimizer whose first call of \<^verbatim>\<open>minimize\<close>, on an objective that is 0 everywhere, has
  stored the fitness 0 and the point pi. A second call, on an objective that is 999999999999
  everywhere, returns the fitness 0 and that point. When 999999999999 is written to
  \<^verbatim>\<open>best_mae_global\<close> between the calls, the second call returns 999999999999 and that
  point, not the integer 9999999.
\<close>

theorem sentinels_not_returned_on_reused_optimizer:
  "UMDA_init (const_rng 0) 1 2 1 (1 / 2) False
   = Inr (\<lparr>disp = False, size_gen = 2, max_iter = 1, alpha = 1 / 2, n_variables = 1,
         vector = [\<lparr>mu = Fin pi, std = Fin (1 / 2), vmin = 0, vmax = pi * 2\<rparr>], dead_iter = 1 / 5,
         best_mae_global = 999999999999, truncation_length = 1,
         generation = [[Fin pi], [Fin pi]], best_ind_global = Scalar 9999999,
         history = [], evaluations = [0]\<rparr>,
          const_rng 0)
   \<and> minimize argsort_stable norm_fit (const_objective 0) [0]
     \<lparr>disp = False, size_gen = 2, max_iter = 1, alpha = 1 / 2, n_variables = 1,
         vector = [\<lparr>mu = Fin pi, std = Fin (1 / 2), vmin = 0, vmax = pi * 2\<rparr>], dead_iter = 1 / 5,
         best_mae_global = 999999999999, truncation_length = 1,
         generation = [[Fin pi], [Fin pi]], best_ind_global = Scalar 9999999,
         history = [], evaluations = [0]\<rparr>
     (const_rng 0)
   = Inr (\<lparr>x = Point [Fin pi], fn = 0, nfev = 2\<rparr>,
          \<lparr>disp = False, size_gen = 2, max_iter = 1, alpha = 1 / 2, n_variables = 1,
         vector = [\<lparr>mu = Fin pi, std = Fin (3 / 10), vmin = 0, vmax = pi * 2\<rparr>], dead_iter = 1 / 5,
         best_mae_global = 0, truncation_length = 1,
         generation = [[Fin pi], [Fin pi]], best_ind_global = Point [Fin pi],
         history = [0], evaluations = [0]\<rparr>,
          const_rng 0, [(0, 0)])
   \<and> minimize argsort_stable norm_fit (const_objective 999999999999) [0]
     \<lparr>disp = False, size_gen = 2, max_iter = 1, alpha = 1 / 2, n_variables = 1,
         vector = [\<lparr>mu = Fin pi, std = Fin (3 / 10), vmin = 0, vmax = pi * 2\<rparr>], dead_iter = 1 / 5,
         best_mae_global = 0, truncation_length = 1,
         generation = [[Fin pi], [Fin pi]], best_ind_global = Point [Fin pi],
         history = [0], evaluations = [0]\<rparr>
     (const_rng 0)
   = Inr (\<lparr>x = Point [Fin pi], fn = 0, nfev = 2\<rparr>,
          \<lparr>disp = False, size_gen = 2, max_iter = 1, alpha = 1 / 2, n_variables = 1,
         vector = [\<lparr>mu = Fin pi, std = Fin (3 / 10), vmin = 0, vmax = pi * 2\<rparr>], dead_iter = 1 / 5,
         best_mae_global = 0, truncation_length = 1,
         generation = [[Fin pi], [Fin pi]], best_ind_global = Point [Fin pi],
         history = [999999999999], evaluations = [999999999999]\<rparr>,
          const_rng 0, [(0, 1)])
   \<and> set_best_mae_global 999999999999
        \<lparr>disp = False, size_gen = 2, max_iter = 1, alpha = 1 / 2, n_variables = 1,
         vector = [\<lparr>mu = Fin pi, std = Fin (3 / 10), vmin = 0, vmax = pi * 2\<rparr>], dead_iter = 1 / 5,
         best_mae_global = 0, truncation_length = 1,
         generation = [[Fin pi], [Fin pi]], best_ind_global = Point [Fin pi],
         history = [0], evaluations = [0]\<rparr>
     =  \<lparr>disp = False, size_gen = 2, max_iter = 1, alpha = 1 / 2, n_variables = 1,
         vector = [\<lparr>mu = Fin pi, std = Fin (3 / 10), vmin = 0, vmax = pi * 2\<rparr>], dead_iter = 1 / 5,
         best_mae_global = 999999999999, truncation_length = 1,
         generation = [[Fin pi], [Fin pi]], best_ind_global = Point [Fin pi],
         history = [0], evaluations = [0]\<rparr>
   \<and> minimize argsort_stable norm_fit (const_objective 999999999999) [0]
     \<lparr>disp = False, size_gen = 2, max_iter = 1, alpha = 1 / 2, n_variables = 1,
         vector = [\<lparr>mu = Fin pi, std = Fin (3 / 10), vmin = 0, vmax = pi * 2\<rparr>], dead_iter = 1 / 5,
         best_mae_global = 999999999999, truncation_length = 1,
         generation = [[Fin pi], [Fin pi]], best_ind_global = Point [Fin pi],
         history = [0], evaluations = [0]\<rparr>
     (const_rng 0)
   = Inr (\<lparr>x = Point [Fin pi], fn = 999999999999, nfev = 2\<rparr>,
          \<lparr>disp = False, size_gen = 2, max_iter = 1, alpha = 1 / 2, n_variables = 1,
         vector = [\<lparr>mu = Fin pi, std = Fin (3 / 10), vmin = 0, vmax = pi * 2\<rparr>], dead_iter = 1 / 5,
         best_mae_global = 999999999999, truncation_length = 1,
         generation = [[Fin pi], [Fin pi]], best_ind_global = Point [Fin pi],
         history = [999999999999], evaluations = [999999999999]\<rparr>,
          const_rng 0, [(999999999999, 1)])"
  by (simp add: run_defs set_best_mae_global_def)

subsection \<open>Calling minimize again\<close>

text \<open>
  C8 (as the code has it). A call of \<^verbatim>\<open>minimize\<close> resets the history and nothing else of
  the optimizer: the history it finds plays no role, and the history it leaves has one entry
  per iteration of this call. The best-ever record is carried over: the value returned is
  the last of the never increasing sequence that starts with the best-ever value found at
  the start of the call, and when no iteration of this call is strictly below that value, the
  call returns the value and the point it found. The population is carried over as well:
  the first iteration evaluates the rows found in the optimizer.
\<close>

theorem minimize_resets_history_only:
  assumes "minimize argsort fit f x0 s g = Inr (r, s', g', tr)"
  shows "minimize argsort fit f x0 (s\<lparr>history := h0\<rparr>) g = Inr (r, s', g', tr) \<and>
         length (history s') = length tr \<and>
         fn r = last (best_mae_global s # map fst tr) \<and> fn r \<le> best_mae_global s \<and>
         ((\<forall>h\<in>set (history s'). best_mae_global s \<le> h) \<longrightarrow>
            fn r = best_mae_global s \<and> x r = best_ind_global s) \<and>
         (history s' \<noteq> [] \<longrightarrow> hd (history s') \<in> f ` set (generation s))"
proof -
  note lt = minimize_trace(1) [OF assms]
  have a: "minimize argsort fit f x0 (s\<lparr>history := h0\<rparr>) g = Inr (r, s', g', tr)"
    using assms by (simp add: minimize_def)
  have b: "length (history s') = length tr"
    using loop_trace_length [OF lt] by simp
  have c: "fn r = last (best_mae_global s # map fst tr)"
    by (rule minimize_trace(3) [OF assms])
  have d: "fn r \<le> best_mae_global s"
    unfolding c by (rule sorted_wrt_ge_last [OF loop_trace_antimono [OF lt]])
  have e: "fn r = best_mae_global s \<and> x r = best_ind_global s"
    if all: "\<forall>h\<in>set (history s'). best_mae_global s \<le> h"
  proof -
    from loop_trace_no_improvement [OF lt all]
    have "last (best_mae_global s # map fst tr) = best_mae_global s"
      by (rule last_all_eq)
    with c minimize_trace(4) [OF assms] all show ?thesis by simp
  qed
  from a b c d e minimize_trace(2) [OF assms] show ?thesis by blast
qed

text \<open>
  The theorem at the second call on an optimizer whose first call found the value 0: the
  second call, on an objective that is 5 everywhere, returns the 0 and the point of the
  first call, and it would do so with any history left by the first call.
\<close>

theorem minimize_resets_history_only_witness:
  "minimize argsort_stable norm_fit (const_objective 5) [0]
     \<lparr>disp = False, size_gen = 2, max_iter = 1, alpha = 1 / 2, n_variables = 1,
         vector = [\<lparr>mu = Fin (pi + 1 / 2), std = Fin (3 / 10), vmin = 0, vmax = pi * 2\<rparr>], dead_iter = 1 / 5,
         best_mae_global = 0, truncation_length = 1,
         generation = [[Fin (pi + 4 / 5)], [Fin (pi + 4 / 5)]], best_ind_global = Point [Fin (pi + 1 / 2)],
         history = [0], evaluations = [0]\<rparr>
     (const_rng 1)
   = Inr (\<lparr>x = Point [Fin (pi + 1 / 2)], fn = 0, nfev = 2\<rparr>,
          \<lparr>disp = False, size_gen = 2, max_iter = 1, alpha = 1 / 2, n_variables = 1,
         vector = [\<lparr>mu = Fin (pi + 4 / 5), std = Fin (3 / 10), vmin = 0, vmax = pi * 2\<rparr>], dead_iter = 1 / 5,
         best_mae_global = 0, truncation_length = 1,
         generation = [[Fin (pi + 11 / 10)], [Fin (pi + 11 / 10)]], best_ind_global = Point [Fin (pi + 1 / 2)],
         history = [5], evaluations = [5]\<rparr>,
          const_rng 1, [(0, 1)])
   \<and> minimize argsort_stable norm_fit (const_objective 5) [0]
     \<lparr>disp = False, size_gen = 2, max_iter = 1, alpha = 1 / 2, n_variables = 1,
         vector = [\<lparr>mu = Fin (pi + 1 / 2), std = Fin (3 / 10), vmin = 0, vmax = pi * 2\<rparr>], dead_iter = 1 / 5,
         best_mae_global = 0, truncation_length = 1,
         generation = [[Fin (pi + 4 / 5)], [Fin (pi + 4 / 5)]], best_ind_global = Point [Fin (pi + 1 / 2)],
         history = [], evaluations = [0]\<rparr>
     (const_rng 1)
   = Inr (\<lparr>x = Point [Fin (pi + 1 / 2)], fn = 0, nfev = 2\<rparr>,
          \<lparr>disp = False, size_gen = 2, max_iter = 1, alpha = 1 / 2, n_variables = 1,
         vector = [\<lparr>mu = Fin (pi + 4 / 5), std = Fin (3 / 10), vmin = 0, vmax = pi * 2\<rparr>], dead_iter = 1 / 5,
         best_mae_global = 0, truncation_length = 1,
         generation = [[Fin (pi + 11 / 10)], [Fin (pi + 11 / 10)]], best_ind_global = Point [Fin (pi + 1 / 2)],
         history = [5], evaluations = [5]\<rparr>,
          const_rng 1, [(0, 1)])"
proof -
  have run: "minimize argsort_stable norm_fit (const_objective 5) [0]
     \<lparr>disp = False, size_gen = 2, max_iter = 1, alpha = 1 / 2, n_variables = 1,
         vector = [\<lparr>mu = Fin (pi + 1 / 2), std = Fin (3 / 10), vmin = 0, vmax = pi * 2\<rparr>], dead_iter = 1 / 5,
         best_mae_global = 0, truncation_length = 1,
         generation = [[Fin (pi + 4 / 5)], [Fin (pi + 4 / 5)]], best_ind_global = Point [Fin (pi + 1 / 2)],
         history = [0], evaluations = [0]\<rparr>
     (const_rng 1)
   = Inr (\<lparr>x = Point [Fin (pi + 1 / 2)], fn = 0, nfev = 2\<rparr>,
          \<lparr>disp = False, size_gen = 2, max_iter = 1, alpha = 1 / 2, n_variables = 1,
         vector = [\<lparr>mu = Fin (pi + 4 / 5), std = Fin (3 / 10), vmin = 0, vmax = pi * 2\<rparr>], dead_iter = 1 / 5,
         best_mae_global = 0, truncation_length = 1,
         generation = [[Fin (pi + 11 / 10)], [Fin (pi + 11 / 10)]], best_ind_global = Point [Fin (pi + 1 / 2)],
         history = [5], evaluations = [5]\<rparr>,
          const_rng 1, [(0, 1)])"
    by (simp add: run_defs)
  from minimize_resets_history_only [OF run, of "[]"] run show ?thesis
    by simp
qed

text \<open>
  Two calls on one optimizer, every variate of the random generator being 1. The first
  call, on an objective that is 0 everywhere, leaves the model at mean pi + 0.5 and standard
  deviation 0.3 and the population at pi + 0.8. The second call, on an objective that is 5
  everywhere, evaluates that population, not one drawn from the prior, and returns the
  value 0 and the point of the first call, which its own objective never produced.
\<close>

theorem second_call_returns_first_best:
  "UMDA_init (const_rng 1) 1 2 1 (1 / 2) False
   = Inr (\<lparr>disp = False, size_gen = 2, max_iter = 1, alpha = 1 / 2, n_variables = 1,
         vector = [\<lparr>mu = Fin pi, std = Fin (1 / 2), vmin = 0, vmax = pi * 2\<rparr>], dead_iter = 1 / 5,
         best_mae_global = 999999999999, truncation_length = 1,
         generation = [[Fin (pi + 1 / 2)], [Fin (pi + 1 / 2)]], best_ind_global = Scalar 9999999,
         history = [], evaluations = [0]\<rparr>,
          const_rng 1)
   \<and> minimize argsort_stable norm_fit (const_objective 0) [0]
     \<lparr>disp = False, size_gen = 2, max_iter = 1, alpha = 1 / 2, n_variables = 1,
         vector = [\<lparr>mu = Fin pi, std = Fin (1 / 2), vmin = 0, vmax = pi * 2\<rparr>], dead_iter = 1 / 5,
         best_mae_global = 999999999999, truncation_length = 1,
         generation = [[Fin (pi + 1 / 2)], [Fin (pi + 1 / 2)]], best_ind_global = Scalar 9999999,
         history = [], evaluations = [0]\<rparr>
     (const_rng 1)
   = Inr (\<lparr>x = Point [Fin (pi + 1 / 2)], fn = 0, nfev = 2\<rparr>,
          \<lparr>disp = False, size_gen = 2, max_iter = 1, alpha = 1 / 2, n_variables = 1,
         vector = [\<lparr>mu = Fin (pi + 1 / 2), std = Fin (3 / 10), vmin = 0, vmax = pi * 2\<rparr>], dead_iter = 1 / 5,
         best_mae_global = 0, truncation_length = 1,
         generation = [[Fin (pi + 4 / 5)], [Fin (pi + 4 / 5)]], best_ind_global = Point [Fin (pi + 1 / 2)],
         history = [0], evaluations = [0]\<rparr>,
          const_rng 1, [(0, 0)])
   \<and> minimize argsort_stable norm_fit (const_objective 5) [0]
     \<lparr>disp = False, size_gen = 2, max_iter = 1, alpha = 1 / 2, n_variables = 1,
         vector = [\<lparr>mu = Fin (pi + 1 / 2), std = Fin (3 / 10), vmin = 0, vmax = pi * 2\<rparr>], dead_iter = 1 / 5,
         best_mae_global = 0, truncation_length = 1,
         generation = [[Fin (pi + 4 / 5)], [Fin (pi + 4 / 5)]], best_ind_global = Point [Fin (pi + 1 / 2)],
         history = [0], evaluations = [0]\<rparr>
     (const_rng 1)
   = Inr (\<lparr>x = Point [Fin (pi + 1 / 2)], fn = 0, nfev = 2\<rparr>,
          \<lparr>disp = False, size_gen = 2, max_iter = 1, alpha = 1 / 2, n_variables = 1,
         vector = [\<lparr>mu = Fin (pi + 4 / 5), std = Fin (3 / 10), vmin = 0, vmax = pi * 2\<rparr>], dead_iter = 1 / 5,
         best_mae_global = 0, truncation_length = 1,
         generation = [[Fin (pi + 11 / 10)], [Fin (pi + 11 / 10)]], best_ind_global = Point [Fin (pi + 1 / 2)],
         history = [5], evaluations = [5]\<rparr>,
          const_rng 1, [(0, 1)])"
  by (simp add: run_defs)

subsection \<open>The stagnation counter\<close>

lemma loop_trace_goes_on:
  "loop_trace d n b c hs tr \<Longrightarrow> Suc j < length tr \<Longrightarrow>
     hs ! j < (if j = 0 then b else fst (tr ! (j - 1))) \<or> real_of_int (snd (tr ! j)) \<noteq> d"
proof (induction hs arbitrary: n b c tr j)
  case Nil
  then show ?case by simp
next
  case (Cons h hs)
  from Cons.prems obtain m e tr' where n: "n = Suc m" and tr: "tr = e # tr'"
    by (auto split: nat.splits list.splits)
  show ?case
  proof (cases j)
    case 0
    with Cons.prems show ?thesis
      by (auto simp: n tr split: if_splits)
  next
    case (Suc k)
    with Cons.prems have k: "Suc k < length tr'" by (simp add: tr)
    from Cons.prems(1) have "loop_trace d m (fst e) (snd e) hs tr'"
      using k by (auto simp: n tr split: if_splits)
    from Cons.IH [OF this k] show ?thesis
      by (cases k) (simp_all add: tr Suc)
  qed
qed

text \<open>
  The stagnation counter in every call of \<^verbatim>\<open>minimize\<close> that returns: it is 0 after an
  iteration that improves strictly on the best-ever fitness and one more than before after
  any other; the loop goes on only after an iteration that improved or left the counter
  different from \<^verbatim>\<open>dead_iter\<close>, and it ends before its budget only with the counter equal to
  \<^verbatim>\<open>dead_iter\<close>. The comparison with \<^verbatim>\<open>dead_iter\<close> is exact.
\<close>

lemma stagnation_rule:
  assumes "minimize argsort fit f x0 s g = Inr (r, s', g', tr)"
  shows "(\<forall>j<length tr.
            snd (tr ! j) =
              (if history s' ! j < (if j = 0 then best_mae_global s else fst (tr ! (j - 1)))
               then 0 else (if j = 0 then 0 else snd (tr ! (j - 1))) + 1)) \<and>
         (\<forall>j. Suc j < length tr \<longrightarrow>
            history s' ! j < (if j = 0 then best_mae_global s else fst (tr ! (j - 1))) \<or>
            real_of_int (snd (tr ! j)) \<noteq> dead_iter s) \<and>
         (length tr < nat (max_iter s) \<longrightarrow>
            tr \<noteq> [] \<and> real_of_int (snd (last tr)) = dead_iter s)"
proof -
  note lt = minimize_trace(1) [OF assms]
  from loop_trace_counter [OF lt] loop_trace_goes_on [OF lt] loop_trace_early_stop [OF lt]
  show ?thesis by blast
qed

text \<open>
  C2, at a budget that is not a multiple of 5. With \<^verbatim>\<open>maxiter = 6\<close> the threshold
  \<^verbatim>\<open>dead_iter\<close> is 6 / 5, whose floor is 1. On an objective that is 0 everywhere the counter
  is 0 after the first iteration and 1 after the second, and goes on to 5: the loop runs all
  six iterations, since no value of the counter equals 6 / 5.
\<close>

theorem stagnation_threshold_not_floored:
  "UMDA_init (const_rng 0) 6 2 1 (1 / 2) False
   = Inr (\<lparr>disp = False, size_gen = 2, max_iter = 6, alpha = 1 / 2, n_variables = 1,
         vector = [\<lparr>mu = Fin pi, std = Fin (1 / 2), vmin = 0, vmax = pi * 2\<rparr>], dead_iter = 6 / 5,
         best_mae_global = 999999999999, truncation_length = 1,
         generation = [[Fin pi], [Fin pi]], best_ind_global = Scalar 9999999,
         history = [], evaluations = [0]\<rparr>,
          const_rng 0)
   \<and> minimize argsort_stable norm_fit (const_objective 0) [0]
     \<lparr>disp = False, size_gen = 2, max_iter = 6, alpha = 1 / 2, n_variables = 1,
         vector = [\<lparr>mu = Fin pi, std = Fin (1 / 2), vmin = 0, vmax = pi * 2\<rparr>], dead_iter = 6 / 5,
         best_mae_global = 999999999999, truncation_length = 1,
         generation = [[Fin pi], [Fin pi]], best_ind_global = Scalar 9999999,
         history = [], evaluations = [0]\<rparr>
     (const_rng 0)
   = Inr (\<lparr>x = Point [Fin pi], fn = 0, nfev = 12\<rparr>,
          \<lparr>disp = False, size_gen = 2, max_iter = 6, alpha = 1 / 2, n_variables = 1,
         vector = [\<lparr>mu = Fin pi, std = Fin (3 / 10), vmin = 0, vmax = pi * 2\<rparr>], dead_iter = 6 / 5,
         best_mae_global = 0, truncation_length = 1,
         generation = [[Fin pi], [Fin pi]], best_ind_global = Point [Fin pi],
         history = [0, 0, 0, 0, 0, 0], evaluations = [0]\<rparr>,
          const_rng 0, [(0, 0), (0, 1), (0, 2), (0, 3), (0, 4), (0, 5)])
   \<and> \<lfloor>dead_iter \<lparr>disp = False, size_gen = 2, max_iter = 6, alpha = 1 / 2, n_variables = 1,
         vector = [\<lparr>mu = Fin pi, std = Fin (1 / 2), vmin = 0, vmax = pi * 2\<rparr>], dead_iter = 6 / 5,
         best_mae_global = 999999999999, truncation_length = 1,
         generation = [[Fin pi], [Fin pi]], best_ind_global = Scalar 9999999,
         history = [], evaluations = [0]\<rparr>\<rfloor> = 1"
  by (simp add: run_defs)

subsection \<open>The setters\<close>

lemma call_setter_derived:
  "truncation_length (call_setter c s) = truncation_length s \<and>
   dead_iter (call_setter c s) = dead_iter s"
  by (cases c) (simp_all add: set_size_gen_def set_max_iter_def set_alpha_def)

lemma call_setters_derived:
  "truncation_length (fold call_setter cs s) = truncation_length s \<and>
   dead_iter (fold call_setter cs s) = dead_iter s"
  by (induction cs arbitrary: s) (simp_all add: call_setter_derived)

text \<open>
  C9. Let an optimizer be constructed and its setters for \<^verbatim>\<open>size_gen\<close>, \<^verbatim>\<open>alpha\<close> and
  \<^verbatim>\<open>max_iter\<close> be called, any number of times in any order. Then \<^verbatim>\<open>truncation_length\<close>
  is still \<^verbatim>\<open>int(size_gen * alpha)\<close> and \<^verbatim>\<open>dead_iter\<close> still \<^verbatim>\<open>maxiter / 5\<close> of the
  construction, while each setter stores its value. The truncation step selects by the old
  \<^verbatim>\<open>truncation_length\<close>, and a run that ends before its budget ends with the counter at
  the old \<^verbatim>\<open>dead_iter\<close>; the budget of the loop is the current \<^verbatim>\<open>max_iter\<close>, and the
  number of rows drawn for a new generation and the factor of the evaluation count are the
  current \<^verbatim>\<open>size_gen\<close>.
\<close>

theorem setters_keep_derived_state:
  assumes "UMDA_init g0 maxiter sg nv a d = Inr (s, g)"
    and "t = fold call_setter cs s"
  shows "truncation_length t = py_int (real_of_int sg * a) \<and>
         dead_iter t = real_of_int maxiter / 5 \<and>
         size_gen (call_setter (Set_size_gen sg') t) = sg' \<and>
         alpha (call_setter (Set_alpha a') t) = a' \<and>
         max_iter (call_setter (Set_max_iter m') t) = m' \<and>
         (\<forall>argsort u. truncation argsort t = Inr u \<longrightarrow>
            generation u = map (\<lambda>i. generation t ! i)
              (py_slice_to (py_int (real_of_int sg * a)) (argsort (evaluations t)))) \<and>
         (\<forall>g1 u g2. new_generation g1 t = Inr (u, g2) \<longrightarrow>
            (\<exists>fresh. int (length fresh) = size_gen t \<and>
               generation u =
                 py_slice_to (py_int (ELITE_FACTOR * real (length (generation t)))) (generation t)
                 @ fresh)) \<and>
         (\<forall>argsort fit f x0 g1 r u g2 tr.
            minimize argsort fit f x0 t g1 = Inr (r, u, g2, tr) \<longrightarrow>
              length tr \<le> nat (max_iter t) \<and>
              (length tr < nat (max_iter t) \<longrightarrow>
                 tr \<noteq> [] \<and> real_of_int (snd (last tr)) = real_of_int maxiter / 5) \<and>
              nfev r = int (length tr) * size_gen t)"
proof -
  from assms(1) have s: "truncation_length s = py_int (real_of_int sg * a)"
    "dead_iter s = real_of_int maxiter / 5"
    by (auto simp: UMDA_init_def bind_eq_Inr)
  have t: "truncation_length t = py_int (real_of_int sg * a)"
    "dead_iter t = real_of_int maxiter / 5"
    using s call_setters_derived [of cs s] by (simp_all add: assms(2))
  have st: "size_gen (call_setter (Set_size_gen sg') t) = sg'"
    "alpha (call_setter (Set_alpha a') t) = a'"
    "max_iter (call_setter (Set_max_iter m') t) = m'"
    by (simp_all add: set_size_gen_def set_max_iter_def set_alpha_def)
  have tr: "generation u = map (\<lambda>i. generation t ! i)
              (py_slice_to (py_int (real_of_int sg * a)) (argsort (evaluations t)))"
    if "truncation argsort t = Inr u" for argsort u
    using that t(1) by (auto simp: truncation_def Let_def split: if_splits)
  have ng: "\<exists>fresh. int (length fresh) = size_gen t \<and>
               generation u =
                 py_slice_to (py_int (ELITE_FACTOR * real (length (generation t)))) (generation t)
                 @ fresh"
    if "new_generation g1 t = Inr (u, g2)" for g1 u g2
  proof -
    from that obtain fresh where
      n: "normal g1 (map mu (vector t)) (map std (vector t)) (size_gen t) (n_variables t)
            = Inr (fresh, g2)"
      and u: "generation u =
                 py_slice_to (py_int (ELITE_FACTOR * real (length (generation t)))) (generation t)
                 @ fresh"
      by (auto simp: new_generation_def bind_eq_Inr Let_def split: if_splits)
    from normal_length [OF n] have "int (length fresh) = size_gen t" by simp
    with u show ?thesis by blast
  qed
  have mn: "length tr \<le> nat (max_iter t) \<and>
              (length tr < nat (max_iter t) \<longrightarrow>
                 tr \<noteq> [] \<and> real_of_int (snd (last tr)) = real_of_int maxiter / 5) \<and>
              nfev r = int (length tr) * size_gen t"
    if run: "minimize argsort fit f x0 t g1 = Inr (r, u, g2, tr)"
    for argsort fit f x0 g1 r u g2 tr
  proof -
    note lt = minimize_trace(1) [OF run]
    from loop_trace_length [OF lt] have l: "length tr = length (history u)"
      "length tr \<le> nat (max_iter t)"
      by simp_all
    from loop_trace_early_stop [OF lt]
    have "length tr < nat (max_iter t) \<longrightarrow>
            tr \<noteq> [] \<and> real_of_int (snd (last tr)) = real_of_int maxiter / 5"
      by (simp add: t)
    with l minimize_trace(5) [OF run] show ?thesis
      by simp
  qed
  from t st tr ng mn show ?thesis by blast
qed

text \<open>
  The theorem at an optimizer built with \<^verbatim>\<open>maxiter=10, size_gen=2, alpha=0.5\<close> and then
  set to \<^verbatim>\<open>size_gen=3, alpha=0.1, max_iter=7\<close>: \<^verbatim>\<open>truncation_length\<close> stays 1 and
  \<^verbatim>\<open>dead_iter\<close> stays 2, the run stops when the counter is 2, and the count returned is
  3 iterations times the new population size 3.
\<close>

theorem setters_keep_derived_state_witness:
  "UMDA_init (const_rng 0) 10 2 1 (1 / 2) False
   = Inr (\<lparr>disp = False, size_gen = 2, max_iter = 10, alpha = 1 / 2, n_variables = 1,
         vector = [\<lparr>mu = Fin pi, std = Fin (1 / 2), vmin = 0, vmax = pi * 2\<rparr>], dead_iter = 2,
         best_mae_global = 999999999999, truncation_length = 1,
         generation = [[Fin pi], [Fin pi]], best_ind_global = Scalar 9999999,
         history = [], evaluations = [0]\<rparr>,
          const_rng 0)
   \<and> fold call_setter [Set_size_gen 3, Set_alpha (1 / 10), Set_max_iter 7]
        \<lparr>disp = False, size_gen = 2, max_iter = 10, alpha = 1 / 2, n_variables = 1,
         vector = [\<lparr>mu = Fin pi, std = Fin (1 / 2), vmin = 0, vmax = pi * 2\<rparr>], dead_iter = 2,
         best_mae_global = 999999999999, truncation_length = 1,
         generation = [[Fin pi], [Fin pi]], best_ind_global = Scalar 9999999,
         history = [], evaluations = [0]\<rparr>
   = \<lparr>disp = False, size_gen = 3, max_iter = 7, alpha = 1 / 10, n_variables = 1,
         vector = [\<lparr>mu = Fin pi, std = Fin (1 / 2), vmin = 0, vmax = pi * 2\<rparr>], dead_iter = 2,
         best_mae_global = 999999999999, truncation_length = 1,
         generation = [[Fin pi], [Fin pi]], best_ind_global = Scalar 9999999,
         history = [], evaluations = [0]\<rparr>
   \<and> minimize argsort_stable norm_fit (const_objective 0) [0]
     \<lparr>disp = False, size_gen = 3, max_iter = 7, alpha = 1 / 10, n_variables = 1,
         vector = [\<lparr>mu = Fin pi, std = Fin (1 / 2), vmin = 0, vmax = pi * 2\<rparr>], dead_iter = 2,
         best_mae_global = 999999999999, truncation_length = 1,
         generation = [[Fin pi], [Fin pi]], best_ind_global = Scalar 9999999,
         history = [], evaluations = [0]\<rparr>
     (const_rng 0)
   = Inr (\<lparr>x = Point [Fin pi], fn = 0, nfev = 9\<rparr>,
          \<lparr>disp = False, size_gen = 3, max_iter = 7, alpha = 1 / 10, n_variables = 1,
         vector = [\<lparr>mu = Fin pi, std = Fin (3 / 10), vmin = 0, vmax = pi * 2\<rparr>], dead_iter = 2,
         best_mae_global = 0, truncation_length = 1,
         generation = [[Fin pi]], best_ind_global = Point [Fin pi],
         history = [0, 0, 0], evaluations = [0]\<rparr>,
          const_rng 0, [(0, 0), (0, 1), (0, 2)])
   \<and> truncation_length \<lparr>disp = False, size_gen = 3, max_iter = 7, alpha = 1 / 10, n_variables = 1,
         vector = [\<lparr>mu = Fin pi, std = Fin (1 / 2), vmin = 0, vmax = pi * 2\<rparr>], dead_iter = 2,
         best_mae_global = 999999999999, truncation_length = 1,
         generation = [[Fin pi], [Fin pi]], best_ind_global = Scalar 9999999,
         history = [], evaluations = [0]\<rparr> = py_int (real_of_int 2 * (1 / 2))
   \<and> real_of_int (snd (last [(0 :: real, 0 :: int), (0, 1), (0, 2)])) = real_of_int 10 / 5"
proof -
  have init: "UMDA_init (const_rng 0) 10 2 1 (1 / 2) False
   = Inr (\<lparr>disp = False, size_gen = 2, max_iter = 10, alpha = 1 / 2, n_variables = 1,
         vector = [\<lparr>mu = Fin pi, std = Fin (1 / 2), vmin = 0, vmax = pi * 2\<rparr>], dead_iter = 2,
         best_mae_global = 999999999999, truncation_length = 1,
         generation = [[Fin pi], [Fin pi]], best_ind_global = Scalar 9999999,
         history = [], evaluations = [0]\<rparr>,
          const_rng 0)"
    by (simp add: run_defs)
  have upd: "\<lparr>disp = False, size_gen = 3, max_iter = 7, alpha = 1 / 10, n_variables = 1,
         vector = [\<lparr>mu = Fin pi, std = Fin (1 / 2), vmin = 0, vmax = pi * 2\<rparr>], dead_iter = 2,
         best_mae_global = 999999999999, truncation_length = 1,
         generation = [[Fin pi], [Fin pi]], best_ind_global = Scalar 9999999,
         history = [], evaluations = [0]\<rparr>
   = fold call_setter [Set_size_gen 3, Set_alpha (1 / 10), Set_max_iter 7]
        \<lparr>disp = False, size_gen = 2, max_iter = 10, alpha = 1 / 2, n_variables = 1,
         vector = [\<lparr>mu = Fin pi, std = Fin (1 / 2), vmin = 0, vmax = pi * 2\<rparr>], dead_iter = 2,
         best_mae_global = 999999999999, truncation_length = 1,
         generation = [[Fin pi], [Fin pi]], best_ind_global = Scalar 9999999,
         history = [], evaluations = [0]\<rparr>"
    by (simp add: set_max_iter_def set_alpha_def set_size_gen_def)
  have run: "minimize argsort_stable norm_fit (const_objective 0) [0]
     \<lparr>disp = False, size_gen = 3, max_iter = 7, alpha = 1 / 10, n_variables = 1,
         vector = [\<lparr>mu = Fin pi, std = Fin (1 / 2), vmin = 0, vmax = pi * 2\<rparr>], dead_iter = 2,
         best_mae_global = 999999999999, truncation_length = 1,
         generation = [[Fin pi], [Fin pi]], best_ind_global = Scalar 9999999,
         history = [], evaluations = [0]\<rparr>
     (const_rng 0)
   = Inr (\<lparr>x = Point [Fin pi], fn = 0, nfev = 9\<rparr>,
          \<lparr>disp = False, size_gen = 3, max_iter = 7, alpha = 1 / 10, n_variables = 1,
         vector = [\<lparr>mu = Fin pi, std = Fin (3 / 10), vmin = 0, vmax = pi * 2\<rparr>], dead_iter = 2,
         best_mae_global = 0, truncation_length = 1,
         generation = [[Fin pi]], best_ind_global = Point [Fin pi],
         history = [0, 0, 0], evaluations = [0]\<rparr>,
          const_rng 0, [(0, 0), (0, 1), (0, 2)])"
    by (simp add: run_defs)
  from setters_keep_derived_state [OF init upd] init upd run show ?thesis
    by (simp add: py_int_def)
qed

end
